theory Spec2Isabelle
  imports
    Complex_Main
    "HOL-Library.Option_ord"
    "HOL-Library.List_Lexorder"
    "HOL-Library.Char_ord"
    "HOL-Library.Multiset"
begin

section \<open>Python values and failures\<close>

text \<open>
  The quotation application is a Flask program (\<^verbatim>\<open>src/app.py\<close>) with a second entry
  point for a managed platform (\<^verbatim>\<open>src/functions/_worker.py\<close>). Every handler is modelled
  as a function from the request (and, for the record store, the table) to its result.

  Numbers are Python floats. The model is polymorphic in the number type \<open>'n\<close> and uses
  only the operations the source applies to it (\<open>0\<close>, \<open>+\<close>, \<open>-\<close>, \<open>*\<close>); no algebraic law
  is assumed unless a theorem says so in its sort constraint, so the general theorems hold
  for every interpretation of the arithmetic, IEEE doubles included. The total starts as
  the integer 0 of Python, which its arithmetic takes for the float 0.0; the model has
  the one \<open>0\<close>. The builtins of
  Python and of the libraries are parameters of the handlers:
  \<^item> \<open>pf\<close>: the builtin \<^verbatim>\<open>float(s)\<close> on strings, \<open>None\<close> where it raises;
  \<^item> \<open>fmt\<close>: the format specification \<^verbatim>\<open>f'{x:,.2f}'\<close>;
  \<^item> \<open>pystr\<close>: the builtin \<^verbatim>\<open>str(x)\<close> on floats;
  \<^item> \<open>dumps\<close>: \<^verbatim>\<open>json.dumps\<close>, and \<open>next_id\<close>: the key the database assigns on insert;
  \<^item> \<open>L\<close>: what the spreadsheet writer, the PDF writer and the file system accept.
\<close>

datatype failure =
    BadRequestKeyError  \<comment> \<open>\<^verbatim>\<open>request.form[key]\<close> on a missing key (HTTP 400)\<close>
  | ValueError          \<comment> \<open>\<^verbatim>\<open>float(s)\<close> on a malformed string (HTTP 500)\<close>
  | IndexError          \<comment> \<open>\<^verbatim>\<open>xs[i]\<close> out of range (HTTP 500)\<close>
  | NotFound            \<comment> \<open>the JSON error answers with status 404\<close>
  | OverflowError       \<comment> \<open>an integer beyond the database's integer type (HTTP 500)\<close>
  | IllegalCharacterError  \<comment> \<open>openpyxl: a text it refuses as a cell value (HTTP 500)\<close>
  | OSError             \<comment> \<open>a file that cannot be written (HTTP 500)\<close>

text \<open>Sequencing of fallible steps: the first failure ends the handler.\<close>

definition and_then :: "failure + 'a \<Rightarrow> ('a \<Rightarrow> failure + 'b) \<Rightarrow> failure + 'b" where
  "and_then m k = (case m of Inl e \<Rightarrow> Inl e | Inr x \<Rightarrow> k x)"

text \<open>
  \<^verbatim>\<open>request.form\<close> is a multi-dictionary: each key has a list of values, empty when the
  key was not sent.
\<close>

type_synonym form = "string \<Rightarrow> string list"

definition form_getitem :: "form \<Rightarrow> string \<Rightarrow> failure + string" where
  \<comment> \<open>\<^verbatim>\<open>request.form[key]\<close>\<close>
  "form_getitem f k = (case f k of [] \<Rightarrow> Inl BadRequestKeyError | v # _ \<Rightarrow> Inr v)"

definition form_get :: "form \<Rightarrow> string \<Rightarrow> string \<Rightarrow> string" where
  \<comment> \<open>\<^verbatim>\<open>request.form.get(key, default)\<close>\<close>
  "form_get f k d = (case f k of [] \<Rightarrow> d | v # _ \<Rightarrow> v)"

definition getlist :: "form \<Rightarrow> string \<Rightarrow> string list" where
  \<comment> \<open>\<^verbatim>\<open>request.form.getlist(key)\<close>\<close>
  "getlist f k = f k"

definition py_or :: "string \<Rightarrow> string \<Rightarrow> string" where
  \<comment> \<open>\<^verbatim>\<open>a or b\<close> on strings: the empty string is falsy\<close>
  "py_or a b = (if a \<noteq> [] then a else b)"

definition float :: "(string \<Rightarrow> 'n option) \<Rightarrow> string \<Rightarrow> failure + 'n" where
  \<comment> \<open>\<^verbatim>\<open>float(s)\<close>\<close>
  "float pf s = (case pf s of None \<Rightarrow> Inl ValueError | Some x \<Rightarrow> Inr x)"

definition getitem :: "'a list \<Rightarrow> nat \<Rightarrow> failure + 'a" where
  \<comment> \<open>\<^verbatim>\<open>xs[i]\<close> for \<open>i \<ge> 0\<close>\<close>
  "getitem xs i = (if i < length xs then Inr (xs ! i) else Inl IndexError)"

text \<open>\<^verbatim>\<open>for i in range(n): body\<close> over a state, stopping at the first failure.\<close>

fun for_range :: "(nat \<Rightarrow> 's \<Rightarrow> failure + 's) \<Rightarrow> nat list \<Rightarrow> 's \<Rightarrow> failure + 's" where
  "for_range body [] s = Inr s"
| "for_range body (i # rest) s =
     (case body i s of Inl e \<Rightarrow> Inl e | Inr s' \<Rightarrow> for_range body rest s')"

section \<open>The preview handler\<close>

record 'n item =
  name :: string
  quantity :: 'n
  price :: 'n
  amount :: 'n

record 'n data =
  company_name :: string
  company_address :: string
  company_phone :: string
  company_email :: string
  quotation_no :: string
  date :: string
  client_name :: string
  client_address :: string
  received :: 'n
  deposit_info :: string
  total_amount :: 'n
  balance :: 'n

text \<open>
  The body of the loop of \<^verbatim>\<open>generate\<close> (lines 167 to 173 of \<^verbatim>\<open>app.py\<close>): the state is
  the pair of \<^verbatim>\<open>data['items']\<close> and \<^verbatim>\<open>total_amount\<close>.
\<close>

definition generate_body ::
  "(string \<Rightarrow> 'n option) \<Rightarrow> string list \<Rightarrow> string list \<Rightarrow> string list \<Rightarrow> nat \<Rightarrow>
   'n item list \<times> 'n \<Rightarrow> failure + 'n item list \<times> ('n::{zero,plus,minus,times})" where
  "generate_body pf item_names quantities prices i st =
     (if item_names ! i = [] then Inr st
      else
        and_then (getitem quantities i) (\<lambda>qs.
        and_then (float pf qs) (\<lambda>quantity.
        and_then (getitem prices i) (\<lambda>ps.
        and_then (float pf ps) (\<lambda>price.
          let amount = quantity * price in
          Inr (fst st @ [\<lparr>name = item_names ! i, quantity = quantity, price = price,
                          amount = amount\<rparr>],
               snd st + amount))))))"

text \<open>
  \<^verbatim>\<open>generate\<close> (the same text in both entry points). Its result is the context it hands
  to the preview template: the dictionary \<^verbatim>\<open>data\<close> and the list \<^verbatim>\<open>items\<close>.
\<close>

definition generate ::
  "(string \<Rightarrow> 'n option) \<Rightarrow> form \<Rightarrow> failure + 'n data \<times> ('n::{zero,plus,minus,times}) item list" where
  "generate pf f =
     and_then (form_getitem f ''company_name'') (\<lambda>company_name'.
     and_then (form_getitem f ''company_address'') (\<lambda>company_address'.
     and_then (form_getitem f ''company_phone'') (\<lambda>company_phone'.
     and_then (form_getitem f ''company_email'') (\<lambda>company_email'.
     and_then (form_getitem f ''quotation_no'') (\<lambda>quotation_no'.
     and_then (form_getitem f ''date'') (\<lambda>date'.
     and_then (form_getitem f ''client_name'') (\<lambda>client_name'.
     and_then (form_getitem f ''client_address'') (\<lambda>client_address'.
     and_then (float pf (py_or (form_get f ''received'' ''0'') ''0'')) (\<lambda>received'.
     let deposit_info' = form_get f ''deposit_info'' [];
         item_names = getlist f ''item_name[]'';
         quantities = getlist f ''quantity[]'';
         prices = getlist f ''price[]''
     in
     and_then (for_range (generate_body pf item_names quantities prices)
            [0..<length item_names] ([], 0)) (\<lambda>(items, total_amount').
       Inr (\<lparr>company_name = company_name', company_address = company_address',
              company_phone = company_phone', company_email = company_email',
              quotation_no = quotation_no', date = date',
              client_name = client_name', client_address = client_address',
              received = received', deposit_info = deposit_info',
              total_amount = total_amount', balance = total_amount' - received'\<rparr>,
            items)))))))))))"

section \<open>Documents\<close>

text \<open>
  A value written into a document is a Python float or a string. A worksheet (openpyxl)
  maps (row, column) to the value written there, with columns \<open>A, B, \<dots>\<close> numbered from
  1. It keeps two row counters: \<open>current_row\<close>, from which \<^verbatim>\<open>ws.append\<close> continues, and
  \<open>top_row\<close>, the largest row that holds a cell, from which \<^verbatim>\<open>ws.max_row\<close> is read.
  Fonts, fills, borders, alignments, column widths and merged ranges carry no value and
  are left out; a cell that the source creates only to style it is a \<open>ws_touch\<close>. The
  sheet also keeps the values in the order they were assigned (\<open>written\<close>).
\<close>

datatype 'n pyval = Num 'n | Str string

record 'n worksheet =
  cells :: "nat \<times> nat \<Rightarrow> 'n pyval option"
  current_row :: nat
  top_row :: nat
  written :: "'n pyval list"

definition Workbook_active :: "'n worksheet" where
  "Workbook_active = \<lparr>cells = Map.empty, current_row = 0, top_row = 0, written = []\<rparr>"

definition ws_cell :: "nat \<Rightarrow> nat \<Rightarrow> 'n pyval \<Rightarrow> 'n worksheet \<Rightarrow> 'n worksheet" where
  \<comment> \<open>\<^verbatim>\<open>ws.cell(row, column, value)\<close> and \<^verbatim>\<open>ws['A1'] = value\<close>\<close>
  "ws_cell r c v ws =
     \<lparr>cells = (cells ws)((r, c) \<mapsto> v),
      current_row = max r (current_row ws),
      top_row = max r (top_row ws),
      written = written ws @ [v]\<rparr>"

definition ws_touch :: "nat \<Rightarrow> nat \<Rightarrow> 'n worksheet \<Rightarrow> 'n worksheet" where
  \<comment> \<open>\<^verbatim>\<open>ws.cell(row, column)\<close> read for styling: the cell exists afterwards\<close>
  "ws_touch r c ws =
     \<lparr>cells = cells ws,
      current_row = max r (current_row ws),
      top_row = max r (top_row ws),
      written = written ws\<rparr>"

definition ws_append :: "'n pyval list \<Rightarrow> 'n worksheet \<Rightarrow> 'n worksheet" where
  \<comment> \<open>\<^verbatim>\<open>ws.append(row)\<close>: the values go to the row after \<open>current_row\<close>, from column 1\<close>
  "ws_append vs ws =
     (let r = current_row ws + 1 in
      \<lparr>cells = fold (\<lambda>(c, v) m. m((r, c) \<mapsto> v)) (zip [1..<Suc (length vs)] vs) (cells ws),
       current_row = r,
       top_row = (if vs = [] then top_row ws else max r (top_row ws)),
       written = written ws @ vs\<rparr>)"

definition max_row :: "'n worksheet \<Rightarrow> nat" where
  \<comment> \<open>\<^verbatim>\<open>ws.max_row\<close>: 1 on a sheet without cells\<close>
  "max_row ws = (if top_row ws = 0 then 1 else top_row ws)"

text \<open>
  A PDF (reportlab) is the list of flowables handed to \<^verbatim>\<open>doc.build\<close>: paragraphs (text
  and style name), spacers (height in millimetres) and tables, whose entries are plain
  values or paragraphs.
\<close>

datatype 'n entry = Val "'n pyval" | Par string string

datatype 'n flowable = Paragraph string string | Spacer nat | Table "'n entry list list"

text \<open>
  Writing the documents can fail in the libraries. openpyxl refuses a text with a control
  character when it is assigned to a cell (\<^verbatim>\<open>IllegalCharacterError\<close>); reportlab parses
  the text of a \<^verbatim>\<open>Paragraph\<close> as markup when it is constructed and raises \<^verbatim>\<open>ValueError\<close> on
  text it cannot parse; \<^verbatim>\<open>wb.save\<close> and \<^verbatim>\<open>doc.build\<close> raise an \<^verbatim>\<open>OSError\<close> when the file
  cannot be written, as for a name with a slash in it. No handler catches any of them.
  What the libraries and the file system accept is a parameter \<open>L\<close> of the handlers. The
  texts of a document are all assigned before its file is written, so the model checks
  them where the document is complete, in that order. A spreadsheet that was saved
  before the PDF failed stays in the output directory; the model keeps the failure only.
\<close>

record libs =
  cell_ok :: "string \<Rightarrow> bool"
  para_ok :: "string \<Rightarrow> bool"
  path_ok :: "string \<Rightarrow> bool"

definition value_ok :: "libs \<Rightarrow> 'n pyval \<Rightarrow> bool" where
  "value_ok L v = (case v of Num x \<Rightarrow> True | Str t \<Rightarrow> cell_ok L t)"

definition wb_save :: "libs \<Rightarrow> string \<Rightarrow> 'n worksheet \<Rightarrow> failure + unit" where
  \<comment> \<open>the assignments of the sheet, then \<^verbatim>\<open>wb.save(os.path.join(output_path, filename))\<close>\<close>
  "wb_save L filename ws =
     (if list_all (value_ok L) (written ws)
      then (if path_ok L filename then Inr () else Inl OSError)
      else Inl IllegalCharacterError)"

fun paragraphs :: "'n flowable \<Rightarrow> string list" where
  "paragraphs (Paragraph t style) = [t]"
| "paragraphs (Spacer h) = []"
| "paragraphs (Table rows) =
     concat (map (\<lambda>row. concat (map (\<lambda>e. case e of Par t style \<Rightarrow> [t] | Val v \<Rightarrow> []) row)) rows)"

definition doc_build :: "libs \<Rightarrow> string \<Rightarrow> 'n flowable list \<Rightarrow> failure + unit" where
  \<comment> \<open>the paragraphs of the story, then \<^verbatim>\<open>doc.build\<close> on the file of that name\<close>
  "doc_build L filename story =
     (if list_all (para_ok L) (concat (map paragraphs story))
      then (if path_ok L filename then Inr () else Inl OSError)
      else Inl ValueError)"

text \<open>What a file-creating request leaves behind: the two files, by name and content.\<close>

record 'n files =
  excel_file :: string
  excel_sheet :: "'n worksheet"
  pdf_file :: string
  pdf_story :: "'n flowable list"

subsection \<open>The labels of \<^verbatim>\<open>app.py\<close>, as UTF-8\<close>

definition zh_quotation :: string where  \<comment> \<open>U+5831 U+50F9 U+55AE\<close>
  "zh_quotation =
     [CHR 0xE5, CHR 0xA0, CHR 0xB1, CHR 0xE5, CHR 0x83, CHR 0xB9, CHR 0xE5, CHR 0x96,
      CHR 0xAE]"

definition zh_client_name :: string where  \<comment> \<open>U+5BA2 U+6236 U+540D U+7A31\<close>
  "zh_client_name =
     [CHR 0xE5, CHR 0xAE, CHR 0xA2, CHR 0xE6, CHR 0x88, CHR 0xB6, CHR 0xE5, CHR 0x90,
      CHR 0x8D, CHR 0xE7, CHR 0xA8, CHR 0xB1]"

definition zh_quotation_no :: string where  \<comment> \<open>U+5831 U+50F9 U+55AE U+865F U+78BC\<close>
  "zh_quotation_no =
     [CHR 0xE5, CHR 0xA0, CHR 0xB1, CHR 0xE5, CHR 0x83, CHR 0xB9, CHR 0xE5, CHR 0x96,
      CHR 0xAE, CHR 0xE8, CHR 0x99, CHR 0x9F, CHR 0xE7, CHR 0xA2, CHR 0xBC]"

definition zh_client_address :: string where  \<comment> \<open>U+5BA2 U+6236 U+5730 U+5740\<close>
  "zh_client_address =
     [CHR 0xE5, CHR 0xAE, CHR 0xA2, CHR 0xE6, CHR 0x88, CHR 0xB6, CHR 0xE5, CHR 0x9C,
      CHR 0xB0, CHR 0xE5, CHR 0x9D, CHR 0x80]"

definition zh_date :: string where  \<comment> \<open>U+65E5 U+671F\<close>
  "zh_date = [CHR 0xE6, CHR 0x97, CHR 0xA5, CHR 0xE6, CHR 0x9C, CHR 0x9F]"

definition zh_item :: string where  \<comment> \<open>U+9805 U+76EE\<close>
  "zh_item = [CHR 0xE9, CHR 0xA0, CHR 0x85, CHR 0xE7, CHR 0x9B, CHR 0xAE]"

definition zh_quantity :: string where  \<comment> \<open>U+6578 U+91CF\<close>
  "zh_quantity = [CHR 0xE6, CHR 0x95, CHR 0xB8, CHR 0xE9, CHR 0x87, CHR 0x8F]"

definition zh_price :: string where  \<comment> \<open>U+55AE U+50F9\<close>
  "zh_price = [CHR 0xE5, CHR 0x96, CHR 0xAE, CHR 0xE5, CHR 0x83, CHR 0xB9]"

definition zh_amount :: string where  \<comment> \<open>U+91D1 U+984D\<close>
  "zh_amount = [CHR 0xE9, CHR 0x87, CHR 0x91, CHR 0xE9, CHR 0xA1, CHR 0x8D]"

definition zh_total :: string where  \<comment> \<open>U+7E3D U+8A08\<close>
  "zh_total = [CHR 0xE7, CHR 0xB8, CHR 0xBD, CHR 0xE8, CHR 0xA8, CHR 0x88]"

definition zh_received :: string where  \<comment> \<open>U+5DF2 U+6536 U+8A02 U+91D1\<close>
  "zh_received =
     [CHR 0xE5, CHR 0xB7, CHR 0xB2, CHR 0xE6, CHR 0x94, CHR 0xB6, CHR 0xE8, CHR 0xA8,
      CHR 0x82, CHR 0xE9, CHR 0x87, CHR 0x91]"

definition zh_balance :: string where  \<comment> \<open>U+9918 U+984D\<close>
  "zh_balance = [CHR 0xE9, CHR 0xA4, CHR 0x98, CHR 0xE9, CHR 0xA1, CHR 0x8D]"

definition zh_deposit_info :: string where  \<comment> \<open>U+8A02 U+91D1 U+8CC7 U+8A0A\<close>
  "zh_deposit_info =
     [CHR 0xE8, CHR 0xA8, CHR 0x82, CHR 0xE9, CHR 0x87, CHR 0x91, CHR 0xE8, CHR 0xB3,
      CHR 0x87, CHR 0xE8, CHR 0xA8, CHR 0x8A]"

section \<open>The exporters of \<^verbatim>\<open>app.py\<close>\<close>

text \<open>One turn of the item loop of \<^verbatim>\<open>generate_excel\<close>; the state is \<^verbatim>\<open>row\<close> and the sheet.\<close>

definition excel_item_row :: "'n item \<Rightarrow> nat \<times> 'n worksheet \<Rightarrow> nat \<times> 'n worksheet" where
  "excel_item_row item st =
     (let row = fst st; ws = snd st;
          ws = ws_cell row 1 (Str (name item)) ws;
          ws = ws_cell row 2 (Num (quantity item)) ws;
          ws = ws_cell row 3 (Num (price item)) ws;
          ws = ws_cell row 4 (Num (amount item)) ws
      in (row + 1, ws))"

text \<open>
  Each exporter is in two steps: the document it builds (the sheet of lines 221 to 298,
  the flowables of lines 310 to 373), and the writing of the file under the name made
  from the quotation number.
\<close>

definition excel_workbook ::
  "string \<Rightarrow> string \<Rightarrow> string \<Rightarrow> string \<Rightarrow> string \<Rightarrow> string \<Rightarrow> string \<Rightarrow> string \<Rightarrow>
   'n item list \<Rightarrow> 'n \<Rightarrow> 'n \<Rightarrow> 'n \<Rightarrow> string \<Rightarrow> 'n worksheet" where
  "excel_workbook company_name' company_address' company_phone' company_email'
       quotation_no' date' client_name' client_address' items total_amount' received'
       balance' deposit_info' =
     (let ws = Workbook_active;
          ws = ws_cell 1 1 (Str company_name') ws;
          ws = ws_cell 2 1 (Str company_address') ws;
          ws = ws_cell 3 1 (Str (''Tel: '' @ company_phone' @ '' Email: '' @ company_email')) ws;
          ws = ws_cell 4 1 (Str zh_quotation) ws;
          ws = ws_cell 6 1 (Str (zh_client_name @ '':'')) ws;
          ws = ws_cell 6 2 (Str client_name') ws;
          ws = ws_cell 6 4 (Str (zh_quotation_no @ '':'')) ws;
          ws = ws_cell 6 5 (Str quotation_no') ws;
          ws = ws_cell 7 1 (Str (zh_client_address @ '':'')) ws;
          ws = ws_cell 7 2 (Str client_address') ws;
          ws = ws_cell 7 4 (Str (zh_date @ '':'')) ws;
          ws = ws_cell 7 5 (Str date') ws;
          ws = ws_append [Str zh_item, Str zh_quantity, Str zh_price, Str zh_amount] ws;
          ws = fold (ws_touch 9) [1, 2, 3, 4, 5] ws;
          (row, ws) = fold excel_item_row items (10, ws);
          ws = ws_cell row 3 (Str (zh_total @ '':'')) ws;
          ws = ws_cell row 4 (Num total_amount') ws;
          row = row + 1;
          ws = ws_cell row 3 (Str (zh_received @ '':'')) ws;
          ws = ws_cell row 4 (Num received') ws;
          row = row + 1;
          ws = ws_cell row 3 (Str (zh_balance @ '':'')) ws;
          ws = ws_cell row 4 (Num balance') ws;
          row = row + 2;
          ws = ws_cell row 1 (Str (zh_deposit_info @ '': '' @ deposit_info')) ws
      in ws)"

definition generate_excel ::
  "libs \<Rightarrow> string \<Rightarrow> string \<Rightarrow> string \<Rightarrow> string \<Rightarrow> string \<Rightarrow> string \<Rightarrow> string \<Rightarrow> string \<Rightarrow>
   'n item list \<Rightarrow> 'n \<Rightarrow> 'n \<Rightarrow> 'n \<Rightarrow> string \<Rightarrow> failure + string \<times> 'n worksheet" where
  "generate_excel L company_name' company_address' company_phone' company_email'
       quotation_no' date' client_name' client_address' items total_amount' received'
       balance' deposit_info' =
     (let ws = excel_workbook company_name' company_address' company_phone' company_email'
                 quotation_no' date' client_name' client_address' items total_amount'
                 received' balance' deposit_info';
          filename = ''Quotation_'' @ quotation_no' @ ''.xlsx''
      in and_then (wb_save L filename ws) (\<lambda>_. Inr (filename, ws)))"

definition pdf_elements ::
  "string \<Rightarrow> string \<Rightarrow> string \<Rightarrow> string \<Rightarrow> string \<Rightarrow> string \<Rightarrow> string \<Rightarrow> string \<Rightarrow>
   'n item list \<Rightarrow> 'n \<Rightarrow> 'n \<Rightarrow> 'n \<Rightarrow> string \<Rightarrow> 'n flowable list" where
  "pdf_elements company_name' company_address' company_phone' company_email'
       quotation_no' date' client_name' client_address' items total_amount' received'
       balance' deposit_info' =
     (let elements = [];
          elements = elements @ [Paragraph company_name' ''SimSunTitle''];
          elements = elements @ [Paragraph company_address' ''SimSunBold''];
          elements = elements @
            [Paragraph (''Tel: '' @ company_phone' @ '' Email: '' @ company_email') ''SimSunBold''];
          elements = elements @ [Spacer 5];
          elements = elements @ [Paragraph zh_quotation ''SimSunTitle''];
          elements = elements @ [Spacer 10];
          client_info_data =
            [[Val (Str (zh_client_name @ '': '' @ client_name')),
              Val (Str (zh_quotation_no @ '': '' @ quotation_no'))],
             [Val (Str (zh_client_address @ '': '' @ client_address')),
              Val (Str (zh_date @ '': '' @ date'))]];
          elements = elements @ [Table client_info_data];
          elements = elements @ [Spacer 10];
          item_data =
            [[Val (Str zh_item), Val (Str zh_quantity), Val (Str zh_price), Val (Str zh_amount)]]
            @ map (\<lambda>item. [Val (Str (name item)), Val (Num (quantity item)),
                             Val (Num (price item)), Val (Num (amount item))]) items;
          elements = elements @ [Table item_data];
          total_data =
            [[Val (Str []), Val (Str []), Val (Str (zh_total @ '':'')), Val (Num total_amount')],
             [Val (Str []), Val (Str []), Val (Str (zh_received @ '':'')), Val (Num received')],
             [Val (Str []), Val (Str []), Val (Str (zh_balance @ '':'')), Val (Num balance')]];
          elements = elements @ [Table total_data];
          elements = elements @ [Spacer 10];
          elements = elements @ [Paragraph (zh_deposit_info @ '': '' @ deposit_info') ''SimSun'']
      in elements)"

definition generate_pdf ::
  "libs \<Rightarrow> string \<Rightarrow> string \<Rightarrow> string \<Rightarrow> string \<Rightarrow> string \<Rightarrow> string \<Rightarrow> string \<Rightarrow> string \<Rightarrow>
   'n item list \<Rightarrow> 'n \<Rightarrow> 'n \<Rightarrow> 'n \<Rightarrow> string \<Rightarrow> failure + string \<times> 'n flowable list" where
  "generate_pdf L company_name' company_address' company_phone' company_email'
       quotation_no' date' client_name' client_address' items total_amount' received'
       balance' deposit_info' =
     (let filename = ''Quotation_'' @ quotation_no' @ ''.pdf'';
          elements = pdf_elements company_name' company_address' company_phone'
                       company_email' quotation_no' date' client_name' client_address'
                       items total_amount' received' balance' deposit_info'
      in and_then (doc_build L filename elements) (\<lambda>_. Inr (filename, elements)))"

section \<open>The file-creating handler of \<^verbatim>\<open>app.py\<close>\<close>

text \<open>The loop of \<^verbatim>\<open>create_files\<close> (lines 200 to 206), written out a second time there.\<close>

definition create_files_body ::
  "(string \<Rightarrow> 'n option) \<Rightarrow> string list \<Rightarrow> string list \<Rightarrow> string list \<Rightarrow> nat \<Rightarrow>
   'n item list \<times> 'n \<Rightarrow> failure + 'n item list \<times> ('n::{zero,plus,minus,times})" where
  "create_files_body pf item_names quantities prices i st =
     (if item_names ! i = [] then Inr st
      else
        and_then (getitem quantities i) (\<lambda>qs.
        and_then (float pf qs) (\<lambda>quantity.
        and_then (getitem prices i) (\<lambda>ps.
        and_then (float pf ps) (\<lambda>price.
          let amount = quantity * price in
          Inr (fst st @ [\<lparr>name = item_names ! i, quantity = quantity, price = price,
                          amount = amount\<rparr>],
               snd st + amount))))))"

definition create_files ::
  "libs \<Rightarrow> (string \<Rightarrow> 'n option) \<Rightarrow> form \<Rightarrow>
   failure + ('n::{zero,plus,minus,times}) files" where
  "create_files L pf f =
     and_then (form_getitem f ''company_name'') (\<lambda>company_name'.
     and_then (form_getitem f ''company_address'') (\<lambda>company_address'.
     and_then (form_getitem f ''company_phone'') (\<lambda>company_phone'.
     and_then (form_getitem f ''company_email'') (\<lambda>company_email'.
     and_then (form_getitem f ''quotation_no'') (\<lambda>quotation_no'.
     and_then (form_getitem f ''date'') (\<lambda>date'.
     and_then (form_getitem f ''client_name'') (\<lambda>client_name'.
     and_then (form_getitem f ''client_address'') (\<lambda>client_address'.
     and_then (float pf (py_or (form_get f ''received'' ''0'') ''0'')) (\<lambda>received'.
     let deposit_info' = form_get f ''deposit_info'' [];
         item_names = getlist f ''item_name[]'';
         quantities = getlist f ''quantity[]'';
         prices = getlist f ''price[]''
     in
     and_then (for_range (create_files_body pf item_names quantities prices)
            [0..<length item_names] ([], 0)) (\<lambda>(items, total_amount').
       let balance' = total_amount' - received' in
       and_then
         (generate_excel L company_name' company_address' company_phone' company_email'
            quotation_no' date' client_name' client_address' items total_amount' received'
            balance' deposit_info') (\<lambda>(excel_filename, ws).
       and_then
         (generate_pdf L company_name' company_address' company_phone' company_email'
            quotation_no' date' client_name' client_address' items total_amount' received'
            balance' deposit_info') (\<lambda>(pdf_filename, elements).
         Inr \<lparr>excel_file = excel_filename, excel_sheet = ws,
              pdf_file = pdf_filename, pdf_story = elements\<rparr>))))))))))))"

section \<open>The file-creating handler of \<^verbatim>\<open>_worker.py\<close>\<close>

text \<open>
  The second entry point builds both documents inside \<^verbatim>\<open>create_files\<close>. Its loop
  (lines 205 to 211) collects rows of values ready for display: the price and the amount
  go through \<open>fmt\<close>, the quantity stays a float.
\<close>

definition worker_create_files_body ::
  "(string \<Rightarrow> 'n option) \<Rightarrow> ('n \<Rightarrow> string) \<Rightarrow> string list \<Rightarrow> string list \<Rightarrow> string list \<Rightarrow>
   nat \<Rightarrow> 'n pyval list list \<times> 'n \<Rightarrow>
   failure + 'n pyval list list \<times> ('n::{zero,plus,minus,times})" where
  "worker_create_files_body pf fmt item_names quantities prices i st =
     (if item_names ! i = [] then Inr st
      else
        and_then (getitem quantities i) (\<lambda>qs.
        and_then (float pf qs) (\<lambda>quantity.
        and_then (getitem prices i) (\<lambda>ps.
        and_then (float pf ps) (\<lambda>price.
          let amount = quantity * price in
          Inr (fst st @ [[Str (item_names ! i), Num quantity, Str (fmt price),
                          Str (fmt amount)]],
               snd st + amount))))))"

definition str :: "('n \<Rightarrow> string) \<Rightarrow> 'n pyval \<Rightarrow> string" where
  \<comment> \<open>\<^verbatim>\<open>str(col)\<close>\<close>
  "str pystr v = (case v of Num x \<Rightarrow> pystr x | Str s \<Rightarrow> s)"

text \<open>
  The spreadsheet part of \<^verbatim>\<open>create_files\<close> (lines 216 to 283) and its PDF part (lines
  285 to 358), each as a function of the local variables it reads. The spreadsheet part
  is in two steps: the sheet down to the header row of the items (lines 216 to 260), and
  the item rows and the summary below them.
\<close>

definition worker_excel_head ::
  "string \<Rightarrow> string \<Rightarrow> string \<Rightarrow> string \<Rightarrow> string \<Rightarrow> string \<Rightarrow> string \<Rightarrow> string \<Rightarrow>
   'n worksheet" where
  "worker_excel_head company_name' company_address' company_phone' company_email'
       quotation_no' date' client_name' client_address' =
     (let ws = Workbook_active;
          ws = ws_cell 1 1 (Str ''Quotation'') ws;
          ws = ws_cell 3 1 (Str company_name') ws;
          ws = ws_cell 4 1 (Str company_address') ws;
          ws = ws_cell 5 1 (Str company_phone') ws;
          ws = ws_cell 6 1 (Str company_email') ws;
          ws = fold (\<lambda>col. fold (\<lambda>row. ws_touch row col) [3..<7]) [3, 4] ws;
          ws = ws_cell 3 3 (Str ''Quotation No:'') ws;
          ws = ws_cell 3 4 (Str quotation_no') ws;
          ws = ws_cell 4 3 (Str ''Date:'') ws;
          ws = ws_cell 4 4 (Str date') ws;
          ws = ws_cell 5 3 (Str ''To:'') ws;
          ws = ws_cell 5 4 (Str client_name') ws;
          ws = ws_cell 6 3 (Str ''Address:'') ws;
          ws = ws_cell 6 4 (Str client_address') ws;
          headers = [''Items'', ''Units'', ''Cost Per Unit'', ''Amount''];
          ws = ws_append [] ws;
          ws = ws_append (map Str headers) ws;
          ws = fold (\<lambda>col_num ws. ws_touch (max_row ws) col_num ws)
                 [1..<Suc (length headers)] ws
      in ws)"

definition worker_excel ::
  "('n \<Rightarrow> string) \<Rightarrow> string \<Rightarrow> string \<Rightarrow> string \<Rightarrow> string \<Rightarrow> string \<Rightarrow> string \<Rightarrow> string \<Rightarrow>
   string \<Rightarrow> 'n pyval list list \<Rightarrow> 'n \<Rightarrow> 'n \<Rightarrow> string \<Rightarrow> ('n::minus) worksheet" where
  "worker_excel fmt company_name' company_address' company_phone' company_email'
       quotation_no' date' client_name' client_address' items_data total_amount' received'
       deposit_info' =
     (let ws = worker_excel_head company_name' company_address' company_phone'
                 company_email' quotation_no' date' client_name' client_address';
          ws = fold ws_append items_data ws;
          balance' = total_amount' - received';
          summary_start_row = max_row ws + 1;
          ws = ws_cell summary_start_row 3 (Str ''TOTAL'') ws;
          ws = ws_cell summary_start_row 4 (Str (fmt total_amount')) ws;
          ws = ws_cell (summary_start_row + 1) 3 (Str ''Received'') ws;
          ws = ws_cell (summary_start_row + 1) 4 (Str (''('' @ fmt received' @ '')'')) ws;
          ws = ws_cell (summary_start_row + 2) 3 (Str ''Balance'') ws;
          ws = ws_cell (summary_start_row + 2) 4 (Str (fmt balance')) ws;
          ws = ws_cell (summary_start_row + 4) 1 (Str deposit_info') ws
      in ws)"

definition worker_pdf ::
  "('n \<Rightarrow> string) \<Rightarrow> ('n \<Rightarrow> string) \<Rightarrow> string \<Rightarrow> string \<Rightarrow> string \<Rightarrow> string \<Rightarrow> string \<Rightarrow>
   string \<Rightarrow> string \<Rightarrow> string \<Rightarrow> 'n pyval list list \<Rightarrow> 'n \<Rightarrow> 'n \<Rightarrow> string \<Rightarrow>
   ('n::minus) flowable list" where
  "worker_pdf fmt pystr company_name' company_address' company_phone' company_email'
       quotation_no' date' client_name' client_address' items_data total_amount' received'
       deposit_info' =
     (let story = [];
          header_data =
            [[Par ''<b>Quotation</b>'' ''SimSunTitle'', Val (Str []),
              Par (''Quotation No: '' @ quotation_no') ''SimSun'', Val (Str [])],
             [Par company_name' ''SimSunBold'', Val (Str []),
              Par (''Date: '' @ date') ''SimSun'', Val (Str [])],
             [Par company_address' ''SimSun'', Val (Str []),
              Par (''To: '' @ client_name') ''SimSun'', Val (Str [])],
             [Par company_phone' ''SimSun'', Val (Str []),
              Par (''Address: '' @ client_address') ''SimSun'', Val (Str [])],
             [Par company_email' ''SimSun'', Val (Str []), Val (Str []), Val (Str [])]];
          story = story @ [Table header_data];
          story = story @ [Spacer 10];
          items_header =
            map (\<lambda>h. Par h ''SimSunBold'') [''Items'', ''Units'', ''Cost Per Unit'', ''Amount''];
          items_list =
            [items_header] @ map (map (\<lambda>col. Par (str pystr col) ''SimSun'')) items_data;
          story = story @ [Table items_list];
          balance' = total_amount' - received';
          summary_data =
            [[Val (Str []), Val (Str ''TOTAL''), Val (Str (fmt total_amount'))],
             [Val (Str []), Val (Str ''Received''), Val (Str (''('' @ fmt received' @ '')''))],
             [Val (Str []), Val (Str ''Balance''), Val (Str (fmt balance'))]];
          story = story @ [Table summary_data];
          story = story @ [Spacer 10];
          story = story @ [Paragraph deposit_info' ''SimSun''];
          story = story @ [Spacer 5];
          story = story @ [Paragraph ''Thank you for your business!'' ''SimSunRight'']
      in story)"

definition worker_create_files ::
  "libs \<Rightarrow> (string \<Rightarrow> 'n option) \<Rightarrow> ('n \<Rightarrow> string) \<Rightarrow> ('n \<Rightarrow> string) \<Rightarrow> form \<Rightarrow>
   failure + ('n::{zero,plus,minus,times}) files" where
  "worker_create_files L pf fmt pystr f =
     and_then (form_getitem f ''company_name'') (\<lambda>company_name'.
     and_then (form_getitem f ''company_address'') (\<lambda>company_address'.
     and_then (form_getitem f ''company_phone'') (\<lambda>company_phone'.
     and_then (form_getitem f ''company_email'') (\<lambda>company_email'.
     and_then (form_getitem f ''quotation_no'') (\<lambda>quotation_no'.
     and_then (form_getitem f ''date'') (\<lambda>date'.
     and_then (form_getitem f ''client_name'') (\<lambda>client_name'.
     and_then (form_getitem f ''client_address'') (\<lambda>client_address'.
     and_then (float pf (py_or (form_get f ''received'' ''0'') ''0'')) (\<lambda>received'.
     let deposit_info' = form_get f ''deposit_info'' [];
         item_names = getlist f ''item_name[]'';
         quantities = getlist f ''quantity[]'';
         prices = getlist f ''price[]''
     in
     and_then (for_range (worker_create_files_body pf fmt item_names quantities prices)
            [0..<length item_names] ([], 0)) (\<lambda>(items_data, total_amount').
       let ws = worker_excel fmt company_name' company_address' company_phone'
                  company_email' quotation_no' date' client_name' client_address'
                  items_data total_amount' received' deposit_info'
       in
       and_then (wb_save L ''Quotation.xlsx'' ws) (\<lambda>_.
       let story = worker_pdf fmt pystr company_name' company_address' company_phone'
                     company_email' quotation_no' date' client_name' client_address'
                     items_data total_amount' received' deposit_info'
       in
       and_then (doc_build L ''Quotation.pdf'' story) (\<lambda>_.
         Inr \<lparr>excel_file = ''Quotation.xlsx'', excel_sheet = ws,
              pdf_file = ''Quotation.pdf'', pdf_story = story\<rparr>))))))))))))"

section \<open>The record store\<close>

text \<open>
  The table of the model class \<^verbatim>\<open>Quotation\<close>: a list of rows, in the order of insertion.
  Every column but the key is nullable. The handlers are the same text in both entry
  points. A request body is the parsed JSON object: for the id and the text and number
  fields, a key that is absent or \<^verbatim>\<open>null\<close> reads as \<open>None\<close>, as \<^verbatim>\<open>data.get(key)\<close> does, and
  the id is an integer. The items are any JSON value: \<^verbatim>\<open>data.get('items', [])\<close> is the
  empty list only when the key is absent, and \<^verbatim>\<open>null\<close> when the body says so.
\<close>

datatype 'n json =
    JNull | JBool bool | JInt int | JFloat 'n | JStr string
  | JList "'n json list" | JDict "(string \<times> 'n json) list"

record 'n quotation =
  q_id :: int
  q_company_name :: "string option"
  q_company_address :: "string option"
  q_company_phone :: "string option"
  q_company_email :: "string option"
  q_client_name :: "string option"
  q_client_address :: "string option"
  q_quotation_no :: "string option"
  q_date :: "string option"
  q_items :: "string option"
  q_received :: "'n option"
  q_deposit_info :: "string option"

record 'n body =
  b_id :: "int option"
  b_company_name :: "string option"
  b_company_address :: "string option"
  b_company_phone :: "string option"
  b_company_email :: "string option"
  b_client_name :: "string option"
  b_client_address :: "string option"
  b_quotation_no :: "string option"
  b_date :: "string option"
  b_items :: "'n json option"
  b_received :: "'n option"
  b_deposit_info :: "string option"

definition Quotation :: "int \<Rightarrow> 'n quotation" where
  \<comment> \<open>\<^verbatim>\<open>Quotation()\<close>: every column unset; the key is the one the insert will assign\<close>
  "Quotation i =
     \<lparr>q_id = i, q_company_name = None, q_company_address = None, q_company_phone = None,
      q_company_email = None, q_client_name = None, q_client_address = None,
      q_quotation_no = None, q_date = None, q_items = None, q_received = None,
      q_deposit_info = None\<rparr>"

text \<open>
  \<^verbatim>\<open>Quotation.query.get(id)\<close> selects the row of that key. The key column is SQLite's
  64-bit integer: binding an integer outside its range raises \<^verbatim>\<open>OverflowError\<close> before any
  row is looked at, and no handler catches it.
\<close>

definition sqlite_integer :: "int \<Rightarrow> bool" where
  "sqlite_integer i \<longleftrightarrow> - (2 ^ 63) \<le> i \<and> i < 2 ^ 63"

definition select_by_id :: "'n quotation list \<Rightarrow> int \<Rightarrow> 'n quotation option" where
  \<comment> \<open>\<^verbatim>\<open>SELECT ... WHERE id = ?\<close>\<close>
  "select_by_id db i = find (\<lambda>q. q_id q = i) db"

definition query_get :: "'n quotation list \<Rightarrow> int \<Rightarrow> failure + 'n quotation option" where
  "query_get db i = (if sqlite_integer i then Inr (select_by_id db i) else Inl OverflowError)"

definition commit_update :: "'n quotation list \<Rightarrow> 'n quotation \<Rightarrow> 'n quotation list" where
  \<comment> \<open>the commit of a changed row: \<^verbatim>\<open>UPDATE ... WHERE id = ?\<close>\<close>
  "commit_update db q = map (\<lambda>r. if q_id r = q_id q then q else r) db"

definition commit_delete :: "'n quotation list \<Rightarrow> 'n quotation \<Rightarrow> 'n quotation list" where
  \<comment> \<open>the commit of \<^verbatim>\<open>db.session.delete(q)\<close>: \<^verbatim>\<open>DELETE ... WHERE id = ?\<close>\<close>
  "commit_delete db q = filter (\<lambda>r. q_id r \<noteq> q_id q) db"

definition truthy :: "int option \<Rightarrow> bool" where
  \<comment> \<open>\<^verbatim>\<open>if quotation_id:\<close> on \<^verbatim>\<open>None\<close> or an integer\<close>
  "truthy v = (case v of None \<Rightarrow> False | Some i \<Rightarrow> i \<noteq> 0)"

definition get_quotations :: "('n::type) quotation list \<Rightarrow> 'n quotation list" where
  \<comment> \<open>\<^verbatim>\<open>Quotation.query.order_by(Quotation.date.desc()).all()\<close>: text compared byte by
      byte, \<^verbatim>\<open>NULL\<close> below every text (the order of SQLite, the default database)\<close>
  "get_quotations db = rev (sort_key q_date (rev db))"

definition assign_fields :: "'n body \<Rightarrow> string \<Rightarrow> 'n quotation \<Rightarrow> 'n quotation" where
  \<comment> \<open>lines 110 to 120 of \<^verbatim>\<open>save_quotation\<close>\<close>
  "assign_fields data' items_json quotation =
     quotation
       \<lparr>q_company_name := b_company_name data',
        q_company_address := b_company_address data',
        q_company_phone := b_company_phone data',
        q_company_email := b_company_email data',
        q_client_name := b_client_name data',
        q_client_address := b_client_address data',
        q_quotation_no := b_quotation_no data',
        q_date := b_date data',
        q_received := b_received data',
        q_deposit_info := b_deposit_info data',
        q_items := Some items_json\<rparr>"

definition save_quotation ::
  "('n quotation list \<Rightarrow> int) \<Rightarrow> ('n json \<Rightarrow> string) \<Rightarrow> 'n quotation list \<Rightarrow> 'n body \<Rightarrow>
   'n quotation list \<times> (failure + int)" where
  "save_quotation next_id dumps db data' =
     (let quotation_id = b_id data';
          items_json = dumps (case b_items data' of None \<Rightarrow> JList [] | Some v \<Rightarrow> v)
      in
      if truthy quotation_id then
        (case query_get db (the quotation_id) of
           Inl e \<Rightarrow> (db, Inl e)
         | Inr None \<Rightarrow> (db, Inl NotFound)
         | Inr (Some quotation) \<Rightarrow>
             let quotation = assign_fields data' items_json quotation
             in (commit_update db quotation, Inr (q_id quotation)))
      else
        let quotation = Quotation (next_id db);
            quotation = assign_fields data' items_json quotation
        in (db @ [quotation], Inr (q_id quotation)))"

definition get_quotation :: "'n quotation list \<Rightarrow> int \<Rightarrow> failure + 'n quotation" where
  "get_quotation db i =
     (case query_get db i of
        Inl e \<Rightarrow> Inl e
      | Inr (Some quotation) \<Rightarrow> Inr quotation
      | Inr None \<Rightarrow> Inl NotFound)"

definition delete_quotation ::
  "'n quotation list \<Rightarrow> int \<Rightarrow> 'n quotation list \<times> (failure + unit)" where
  "delete_quotation db i =
     (case query_get db i of
        Inl e \<Rightarrow> (db, Inl e)
      | Inr (Some quotation) \<Rightarrow> (commit_delete db quotation, Inr ())
      | Inr None \<Rightarrow> (db, Inl NotFound))"

text \<open>
  The key of an insert, for SQLite (the database the source configures by default): one
  more than the largest key in the table, 1 on an empty table.
\<close>

definition sqlite_rowid :: "'n quotation list \<Rightarrow> int" where
  "sqlite_rowid db = (case db of [] \<Rightarrow> 1 | r # rs \<Rightarrow> fold max (map q_id rs) (q_id r) + 1)"

text \<open>The primary key's invariant: keys are unique, and assigned keys are positive.\<close>

definition store_ok :: "'n quotation list \<Rightarrow> bool" where
  "store_ok db = (distinct (map q_id db) \<and> list_all (\<lambda>r. 0 < q_id r) db)"

section \<open>The rows of a form, and the forms of the examples\<close>

text \<open>
  The rows a form names: the indices of \<^verbatim>\<open>item_name[]\<close> whose name is not empty, and what
  such a row reads as when its quantity and its price parse.
\<close>

definition named_rows :: "string list \<Rightarrow> nat list" where
  "named_rows ns = filter (\<lambda>i. ns ! i \<noteq> []) [0..<length ns]"

definition row_parses :: "(string \<Rightarrow> 'n option) \<Rightarrow> string list \<Rightarrow> string list \<Rightarrow> nat \<Rightarrow> bool" where
  "row_parses pf qs ps i \<longleftrightarrow>
     i < length qs \<and> i < length ps \<and> pf (qs ! i) \<noteq> None \<and> pf (ps ! i) \<noteq> None"

definition row_item ::
  "(string \<Rightarrow> 'n option) \<Rightarrow> string list \<Rightarrow> string list \<Rightarrow> string list \<Rightarrow> nat \<Rightarrow> ('n::times) item" where
  "row_item pf ns qs ps i =
     \<lparr>name = ns ! i, quantity = the (pf (qs ! i)), price = the (pf (ps ! i)),
      amount = the (pf (qs ! i)) * the (pf (ps ! i))\<rparr>"

text \<open>
  What the second entry point shows for an item, and the files each entry point leaves
  for the context of a preview: the exporters applied to the preview's own values.
\<close>

definition worker_row :: "('n \<Rightarrow> string) \<Rightarrow> 'n item \<Rightarrow> 'n pyval list" where
  "worker_row fmt it =
     [Str (name it), Num (quantity it), Str (fmt (price it)), Str (fmt (amount it))]"

definition exported :: "'n data \<Rightarrow> 'n item list \<Rightarrow> 'n files" where
  "exported d its =
     \<lparr>excel_file = ''Quotation_'' @ quotation_no d @ ''.xlsx'',
      excel_sheet = excel_workbook (company_name d) (company_address d) (company_phone d)
         (company_email d) (quotation_no d) (date d) (client_name d) (client_address d) its
         (total_amount d) (received d) (balance d) (deposit_info d),
      pdf_file = ''Quotation_'' @ quotation_no d @ ''.pdf'',
      pdf_story = pdf_elements (company_name d) (company_address d) (company_phone d)
         (company_email d) (quotation_no d) (date d) (client_name d) (client_address d) its
         (total_amount d) (received d) (balance d) (deposit_info d)\<rparr>"

definition worker_exported ::
  "('n \<Rightarrow> string) \<Rightarrow> ('n \<Rightarrow> string) \<Rightarrow> 'n data \<Rightarrow> ('n::minus) item list \<Rightarrow> 'n files" where
  "worker_exported fmt pystr d its =
     \<lparr>excel_file = ''Quotation.xlsx'',
      excel_sheet = worker_excel fmt (company_name d) (company_address d) (company_phone d)
         (company_email d) (quotation_no d) (date d) (client_name d) (client_address d)
         (map (worker_row fmt) its) (total_amount d) (received d) (deposit_info d),
      pdf_file = ''Quotation.pdf'',
      pdf_story = worker_pdf fmt pystr (company_name d) (company_address d) (company_phone d)
         (company_email d) (quotation_no d) (date d) (client_name d) (client_address d)
         (map (worker_row fmt) its) (total_amount d) (received d) (deposit_info d)\<rparr>"

text \<open>
  Whether the libraries write the two files: the texts of the sheet, its file, the
  paragraphs of the PDF, its file, in the order of the handlers.
\<close>

definition checked :: "libs \<Rightarrow> 'n files \<Rightarrow> failure + 'n files" where
  "checked L fl =
     and_then (wb_save L (excel_file fl) (excel_sheet fl)) (\<lambda>_.
     and_then (doc_build L (pdf_file fl) (pdf_story fl)) (\<lambda>_. Inr fl))"

text \<open>
  For the examples, libraries that accept at least plain texts: a cell value without
  the control characters openpyxl lists, a paragraph without markup characters (or the
  fixed title of the second entry point), a file name without a slash or a null
  character. And the format \<^verbatim>\<open>,.2f\<close> and \<^verbatim>\<open>str\<close> on the numbers the examples hold.
\<close>

definition control_char :: "char \<Rightarrow> bool" where
  "control_char c =
     (let n = (of_char c :: nat) in n \<le> 8 \<or> n = 11 \<or> n = 12 \<or> (14 \<le> n \<and> n \<le> 31))"

definition plain_libs :: libs where
  "plain_libs =
     \<lparr>cell_ok = (\<lambda>t. list_all (\<lambda>c. c \<notin> {c. control_char c}) t),
      para_ok = (\<lambda>t. t = ''<b>Quotation</b>'' \<or> list_all (\<lambda>c. c \<notin> {CHR ''<'', CHR ''&''}) t),
      path_ok = (\<lambda>t. list_all (\<lambda>c. c \<notin> {CHR ''/'', CHR 0x00}) t)\<rparr>"

definition two_decimals :: "real \<Rightarrow> string" where
  "two_decimals x =
     (if x = 0 then ''0.00'' else if x = 10 then ''10.00'' else if x = 20 then ''20.00''
      else if x = 25 then ''25.00'' else if x = 45 then ''45.00''
      else if x = 1000 then ''1,000.00'' else if x = 1234.5 then ''1,234.50''
      else if x = 1469 then ''1,469.00'' else if x = 2469 then ''2,469.00'' else [])"

definition float_str :: "real \<Rightarrow> string" where
  "float_str x = (if x = 1 then ''1.0'' else if x = 2 then ''2.0'' else [])"

text \<open>
  For the examples, \<^verbatim>\<open>float\<close> on plain decimal literals (digits, with at most one point):
  the exact value of the literal. Python rounds that value to the nearest double, which
  changes nothing for the numbers of the examples (integers below 10000, and 1234.5).
\<close>

definition digit :: "char \<Rightarrow> nat option" where
  "digit c =
     (let n = (of_char c :: nat) in if 48 \<le> n \<and> n \<le> 57 then Some (n - 48) else None)"

fun digits :: "string \<Rightarrow> nat \<Rightarrow> nat option" where
  "digits [] v = Some v"
| "digits (c # cs) v = (case digit c of None \<Rightarrow> None | Some d \<Rightarrow> digits cs (10 * v + d))"

definition decimal :: "string \<Rightarrow> real option" where
  "decimal s =
     (let whole = takeWhile (\<lambda>c. c \<noteq> CHR ''.'') s;
          frac = drop 1 (dropWhile (\<lambda>c. c \<noteq> CHR ''.'') s)
      in if whole = [] \<and> frac = [] then None
         else (case (digits whole 0, digits frac 0) of
                 (Some a, Some b) \<Rightarrow> Some (real a + real b / 10 ^ length frac)
               | _ \<Rightarrow> None))"

definition company_form :: form where
  "company_form =
     (\<lambda>k. [])(''company_name'' := [''ACME''], ''company_address'' := [''1 Main St''],
             ''company_phone'' := [''555''], ''company_email'' := [''a@b.c''],
             ''quotation_no'' := [''Q1''], ''date'' := [''2024-01-01''],
             ''client_name'' := [''Bob''], ''client_address'' := [''2 Side St''])"

definition widget_form :: form where
  "widget_form =
     company_form(''received'' := [''20''],
       ''item_name[]'' := [''Widget'', [], ''Gadget''],
       ''quantity[]'' := [''2'', ''5'', ''1''],
       ''price[]'' := [''10.0'', ''3.0'', ''25.0''])"

text \<open>What the preview of \<open>widget_form\<close> holds.\<close>

definition widget_data :: "real data" where
  "widget_data =
     \<lparr>company_name = ''ACME'', company_address = ''1 Main St'', company_phone = ''555'',
      company_email = ''a@b.c'', quotation_no = ''Q1'', date = ''2024-01-01'',
      client_name = ''Bob'', client_address = ''2 Side St'', received = 20,
      deposit_info = [], total_amount = 45, balance = 25\<rparr>"

definition widget_items :: "real item list" where
  "widget_items =
     [\<lparr>name = ''Widget'', quantity = 2, price = 10, amount = 20\<rparr>,
      \<lparr>name = ''Gadget'', quantity = 1, price = 25, amount = 25\<rparr>]"

text \<open>A form with amounts in the thousands, and what its preview holds.\<close>

definition pricey_form :: form where
  "pricey_form =
     company_form(''received'' := [''1000''],
       ''item_name[]'' := [''Widget''],
       ''quantity[]'' := [''2''],
       ''price[]'' := [''1234.5''])"

definition pricey_data :: "real data" where
  "pricey_data =
     \<lparr>company_name = ''ACME'', company_address = ''1 Main St'', company_phone = ''555'',
      company_email = ''a@b.c'', quotation_no = ''Q1'', date = ''2024-01-01'',
      client_name = ''Bob'', client_address = ''2 Side St'', received = 1000,
      deposit_info = [], total_amount = 2469, balance = 1469\<rparr>"

definition pricey_items :: "real item list" where
  "pricey_items = [\<lparr>name = ''Widget'', quantity = 2, price = 1234.5, amount = 2469\<rparr>]"

text \<open>
  For the examples of the record store: \<^verbatim>\<open>json.dumps\<close> on \<^verbatim>\<open>null\<close>, on texts without
  characters to escape and on lists of such texts (the examples hold no other value, and
  any other is given the empty text here), a request body, and a table of three rows.
\<close>

definition dumps_texts :: "real json \<Rightarrow> string" where
  "dumps_texts v =
     (let text = (\<lambda>x. case x of JStr t \<Rightarrow> [CHR 0x22] @ t @ [CHR 0x22] | _ \<Rightarrow> [])
      in case v of
           JNull \<Rightarrow> ''null''
         | JStr t \<Rightarrow> text (JStr t)
         | JList [] \<Rightarrow> ''[]''
         | JList (x # rest) \<Rightarrow> ''['' @ text x @ concat (map (\<lambda>y. '', '' @ text y) rest) @ '']''
         | _ \<Rightarrow> [])"

definition order_body :: "real body" where
  "order_body =
     \<lparr>b_id = None, b_company_name = Some ''ACME'', b_company_address = Some ''1 Main St'',
      b_company_phone = Some ''555'', b_company_email = Some ''a@b.c'',
      b_client_name = Some ''Bob'', b_client_address = Some ''2 Side St'',
      b_quotation_no = Some ''Q9'', b_date = Some ''2024-02-01'',
      b_items = Some (JList [JStr ''Widget'']), b_received = Some 20,
      b_deposit_info = None\<rparr>"

definition dated :: "int \<Rightarrow> string option \<Rightarrow> real quotation" where
  "dated i dt = (Quotation i)\<lparr>q_date := dt\<rparr>"

definition three_rows :: "real quotation list" where
  "three_rows = [dated 1 (Some ''2024-01-02''), dated 2 None, dated 3 (Some ''2024-03-01'')]"

section \<open>Fallible steps\<close>

lemma and_then_Inr_iff: "and_then m k = Inr y \<longleftrightarrow> (\<exists>x. m = Inr x \<and> k x = Inr y)"
  by (cases m) (simp_all add: and_then_def)

lemma float_Inr_iff: "float pf s = Inr x \<longleftrightarrow> pf s = Some x"
  by (simp add: float_def split: option.splits)

lemma getitem_Inr_iff: "getitem xs i = Inr x \<longleftrightarrow> i < length xs \<and> x = xs ! i"
  by (auto simp: getitem_def)

lemma form_getitem_Inr_iff: "form_getitem f k = Inr v \<longleftrightarrow> f k \<noteq> [] \<and> v = hd (f k)"
  by (cases "f k") (auto simp: form_getitem_def)

lemma for_range_Cons_Inr:
  "for_range body (i # rest) s = Inr s'' \<longleftrightarrow>
     (\<exists>s'. body i s = Inr s' \<and> for_range body rest s' = Inr s'')"
  by (cases "body i s") simp_all

section \<open>The item loops\<close>

lemma generate_body_Inr:
  "generate_body pf ns qs ps i st = Inr st' \<longleftrightarrow>
     (if ns ! i = [] then st' = st
      else row_parses pf qs ps i \<and>
           st' = (fst st @ [row_item pf ns qs ps i], snd st + amount (row_item pf ns qs ps i)))"
  by (auto simp: generate_body_def and_then_Inr_iff float_Inr_iff getitem_Inr_iff
      row_parses_def row_item_def Let_def)

text \<open>
  The loop succeeds exactly when every named row parses; it then holds the named rows,
  in order, and their amounts added from the left to the starting value.
\<close>

lemma for_range_generate_body:
  "for_range (generate_body pf ns qs ps) js (its0, tot0) = Inr (its, tot) \<longleftrightarrow>
     list_all (row_parses pf qs ps) (filter (\<lambda>i. ns ! i \<noteq> []) js) \<and>
     its = its0 @ map (row_item pf ns qs ps) (filter (\<lambda>i. ns ! i \<noteq> []) js) \<and>
     tot = foldl (+) tot0
             (map (\<lambda>i. amount (row_item pf ns qs ps i)) (filter (\<lambda>i. ns ! i \<noteq> []) js))"
proof (induction js arbitrary: its0 tot0)
  case Nil
  then show ?case by auto
next
  case (Cons j js)
  show ?case
  proof (cases "ns ! j = []")
    case True
    then show ?thesis
      by (simp only: for_range_Cons_Inr generate_body_Inr if_True simp_thms Cons.IH
          filter.simps if_False)
  next
    case False
    then show ?thesis
      by (simp add: for_range_Cons_Inr generate_body_Inr Cons.IH del: for_range.simps)
  qed
qed

lemma create_files_body_eq: "create_files_body = generate_body"
  by (intro ext) (simp add: create_files_body_def generate_body_def)

lemma worker_body_refines:
  "worker_create_files_body pf fmt ns qs ps i (map (worker_row fmt) its, t) =
     (case generate_body pf ns qs ps i (its, t) of
        Inl e \<Rightarrow> Inl e
      | Inr st \<Rightarrow> Inr (map (worker_row fmt) (fst st), snd st))"
  by (simp add: worker_create_files_body_def generate_body_def and_then_def Let_def
      worker_row_def split: sum.splits)

lemma worker_loop_refines:
  "for_range (worker_create_files_body pf fmt ns qs ps) js (map (worker_row fmt) its, t) =
     (case for_range (generate_body pf ns qs ps) js (its, t) of
        Inl e \<Rightarrow> Inl e
      | Inr st \<Rightarrow> Inr (map (worker_row fmt) (fst st), snd st))"
proof (induction js arbitrary: its t)
  case Nil
  show ?case by simp
next
  case (Cons j js)
  show ?case
  proof (cases "generate_body pf ns qs ps j (its, t)")
    case (Inl e)
    then show ?thesis by (simp add: worker_body_refines)
  next
    case (Inr st)
    then show ?thesis
      using Cons.IH[of "fst st" "snd st"] by (simp add: worker_body_refines)
  qed
qed

section \<open>The handlers, in terms of the preview\<close>

lemma generate_Inr:
  "generate pf f = Inr (d, its) \<longleftrightarrow>
     (\<exists>r.
        f ''company_name'' \<noteq> [] \<and> f ''company_address'' \<noteq> [] \<and>
        f ''company_phone'' \<noteq> [] \<and> f ''company_email'' \<noteq> [] \<and>
        f ''quotation_no'' \<noteq> [] \<and> f ''date'' \<noteq> [] \<and>
        f ''client_name'' \<noteq> [] \<and> f ''client_address'' \<noteq> [] \<and>
        pf (py_or (form_get f ''received'' ''0'') ''0'') = Some r \<and>
        list_all (row_parses pf (f ''quantity[]'') (f ''price[]''))
          (named_rows (f ''item_name[]'')) \<and>
        its = map (row_item pf (f ''item_name[]'') (f ''quantity[]'') (f ''price[]''))
                (named_rows (f ''item_name[]'')) \<and>
        d = \<lparr>company_name = hd (f ''company_name''),
              company_address = hd (f ''company_address''),
              company_phone = hd (f ''company_phone''),
              company_email = hd (f ''company_email''),
              quotation_no = hd (f ''quotation_no''), date = hd (f ''date''),
              client_name = hd (f ''client_name''),
              client_address = hd (f ''client_address''),
              received = r, deposit_info = form_get f ''deposit_info'' [],
              total_amount =
                foldl (+) 0
                  (map (\<lambda>i. amount (row_item pf (f ''item_name[]'') (f ''quantity[]'')
                                        (f ''price[]'') i))
                     (named_rows (f ''item_name[]''))),
              balance =
                foldl (+) 0
                  (map (\<lambda>i. amount (row_item pf (f ''item_name[]'') (f ''quantity[]'')
                                        (f ''price[]'') i))
                     (named_rows (f ''item_name[]''))) - r\<rparr>)"
  unfolding generate_def Let_def and_then_Inr_iff form_getitem_Inr_iff float_Inr_iff
    getlist_def named_rows_def
  by (auto simp: for_range_generate_body)

lemma create_files_refines:
  "create_files L pf f =
     (case generate pf f of Inl e \<Rightarrow> Inl e | Inr (d, its) \<Rightarrow> checked L (exported d its))"
  by (simp add: create_files_def generate_def generate_excel_def generate_pdf_def checked_def
      and_then_def Let_def create_files_body_eq exported_def split_beta split: sum.splits)

lemma worker_create_files_refines:
  "worker_create_files L pf fmt pystr f =
     (case generate pf f of
        Inl e \<Rightarrow> Inl e
      | Inr (d, its) \<Rightarrow> checked L (worker_exported fmt pystr d its))"
  using worker_loop_refines[of pf fmt "f ''item_name[]''" "f ''quantity[]''" "f ''price[]''"
      "[0..<length (f ''item_name[]'')]" "[]" 0]
  by (simp add: worker_create_files_def generate_def checked_def and_then_def Let_def
      getlist_def worker_exported_def split_beta split: sum.splits)

lemma checked_Inr: "checked L fl = Inr fl' \<Longrightarrow> fl' = fl"
  by (simp add: checked_def and_then_def split: sum.splits)

lemma checked_Inr_iff:
  "checked L fl = Inr fl \<longleftrightarrow>
     list_all (value_ok L) (written (excel_sheet fl)) \<and> path_ok L (excel_file fl) \<and>
     list_all (para_ok L) (concat (map paragraphs (pdf_story fl))) \<and> path_ok L (pdf_file fl)"
  by (simp add: checked_def and_then_def wb_save_def doc_build_def split: sum.splits)

lemma create_files_Inr:
  "create_files L pf f = Inr fl \<longleftrightarrow>
     (\<exists>d its. generate pf f = Inr (d, its) \<and> fl = exported d its \<and> checked L fl = Inr fl)"
  using checked_Inr[of L _ fl]
  by (auto simp: create_files_refines split: sum.splits)

lemma worker_create_files_Inr:
  "worker_create_files L pf fmt pystr f = Inr fl \<longleftrightarrow>
     (\<exists>d its. generate pf f = Inr (d, its) \<and> fl = worker_exported fmt pystr d its \<and>
        checked L fl = Inr fl)"
  using checked_Inr[of L _ fl]
  by (auto simp: worker_create_files_refines split: sum.splits)

section \<open>Where the documents hold the totals\<close>

lemma cells_ws_cell:
  "cells (ws_cell r c v ws) k = (if k = (r, c) then Some v else cells ws k)"
  by (simp add: ws_cell_def)

lemma counters_ws_cell:
  "current_row (ws_cell r c v ws) = max r (current_row ws)"
  "top_row (ws_cell r c v ws) = max r (top_row ws)"
  by (simp_all add: ws_cell_def)

lemma counters_ws_touch:
  "current_row (ws_touch r c ws) = max r (current_row ws)"
  "top_row (ws_touch r c ws) = max r (top_row ws)"
  "cells (ws_touch r c ws) = cells ws"
  by (simp_all add: ws_touch_def)

lemma counters_ws_append:
  "current_row (ws_append vs ws) = Suc (current_row ws)"
  "top_row (ws_append [] ws) = top_row ws"
  "vs \<noteq> [] \<Longrightarrow> top_row (ws_append vs ws) = max (Suc (current_row ws)) (top_row ws)"
  by (simp_all add: ws_append_def Let_def)

lemma counters_Workbook_active:
  "current_row Workbook_active = 0" "top_row Workbook_active = 0"
  by (simp_all add: Workbook_active_def)

lemmas counters =
  counters_ws_cell counters_ws_touch counters_ws_append counters_Workbook_active

lemma upt_3_7: "[3..<7] = [3, 4, 5, 6::nat]"
  by (simp add: upt_rec)

lemma touch_max_row:
  "0 < top_row ws \<Longrightarrow> top_row ws \<le> current_row ws \<Longrightarrow>
   fold (\<lambda>c ws. ws_touch (max_row ws) c ws) cs ws = ws"
proof (induction cs)
  case Nil
  show ?case by simp
next
  case (Cons c cs)
  have "ws_touch (max_row ws) c ws = ws"
    using Cons.prems by (simp add: ws_touch_def max_row_def max_def)
  with Cons show ?case by simp
qed

lemma counters_fold_ws_append:
  "list_all (\<lambda>vs. vs \<noteq> []) rows \<Longrightarrow> top_row ws = current_row ws \<Longrightarrow>
   current_row (fold ws_append rows ws) = current_row ws + length rows \<and>
   top_row (fold ws_append rows ws) = current_row ws + length rows"
proof (induction rows arbitrary: ws)
  case Nil
  then show ?case by simp
next
  case (Cons vs rows)
  have "top_row (ws_append vs ws) = current_row (ws_append vs ws)"
    using Cons.prems by (simp add: counters_ws_append)
  moreover have "current_row (ws_append vs ws) = current_row ws + 1"
    by (simp add: counters_ws_append)
  ultimately show ?case
    using Cons.IH[of "ws_append vs ws"] Cons.prems by simp
qed

lemma fst_fold_excel_item_row:
  "fst (fold excel_item_row items (r, ws)) = r + length items"
  by (induction items arbitrary: r ws) (simp_all add: excel_item_row_def Let_def)

lemma generate_excel_totals:
  "cells (excel_workbook cn ca cp ce qn dt cl cla its t r b di) (10 + length its, 4)
     = Some (Num t)"
  "cells (excel_workbook cn ca cp ce qn dt cl cla its t r b di) (11 + length its, 4)
     = Some (Num r)"
  "cells (excel_workbook cn ca cp ce qn dt cl cla its t r b di) (12 + length its, 4)
     = Some (Num b)"
  by (simp_all add: excel_workbook_def Let_def split_beta cells_ws_cell
      fst_fold_excel_item_row)

lemma generate_pdf_totals:
  "pdf_elements cn ca cp ce qn dt cl cla its t r b di ! 9 =
     Table [[Val (Str []), Val (Str []), Val (Str (zh_total @ '':'')), Val (Num t)],
            [Val (Str []), Val (Str []), Val (Str (zh_received @ '':'')), Val (Num r)],
            [Val (Str []), Val (Str []), Val (Str (zh_balance @ '':'')), Val (Num b)]]"
  by (simp add: pdf_elements_def Let_def)

lemma worker_excel_head_counters:
  "current_row (worker_excel_head cn ca cp ce qn dt cl cla :: 'n worksheet) = 8 \<and>
   top_row (worker_excel_head cn ca cp ce qn dt cl cla :: 'n worksheet) = 8"
  unfolding worker_excel_head_def Let_def
  apply (subst touch_max_row)
    apply (simp add: counters upt_3_7)
   apply (simp add: counters upt_3_7)
  apply (subst touch_max_row)
    apply (simp add: counters upt_3_7)
   apply (simp add: counters upt_3_7)
  apply (simp add: counters upt_3_7)
  done

lemma worker_excel_summary:
  assumes "list_all (\<lambda>vs. vs \<noteq> []) rows"
  shows "cells (worker_excel fmt cn ca cp ce qn dt cl cla rows t r di) (9 + length rows, 4)
           = Some (Str (fmt t))"
    and "cells (worker_excel fmt cn ca cp ce qn dt cl cla rows t r di) (10 + length rows, 4)
           = Some (Str (''('' @ fmt r @ '')''))"
    and "cells (worker_excel fmt cn ca cp ce qn dt cl cla rows t r di) (11 + length rows, 4)
           = Some (Str (fmt (t - r)))"
proof -
  have "top_row (fold ws_append rows (worker_excel_head cn ca cp ce qn dt cl cla))
          = 8 + length rows"
    using counters_fold_ws_append[OF assms] worker_excel_head_counters by metis
  then have "max_row (fold ws_append rows (worker_excel_head cn ca cp ce qn dt cl cla))
          = 8 + length rows"
    by (simp add: max_row_def)
  then show
    "cells (worker_excel fmt cn ca cp ce qn dt cl cla rows t r di) (9 + length rows, 4)
       = Some (Str (fmt t))"
    "cells (worker_excel fmt cn ca cp ce qn dt cl cla rows t r di) (10 + length rows, 4)
       = Some (Str (''('' @ fmt r @ '')''))"
    "cells (worker_excel fmt cn ca cp ce qn dt cl cla rows t r di) (11 + length rows, 4)
       = Some (Str (fmt (t - r)))"
    by (simp_all add: worker_excel_def Let_def cells_ws_cell)
qed

lemma worker_pdf_summary:
  "worker_pdf fmt pystr cn ca cp ce qn dt cl cla rows t r di ! 3 =
     Table [[Val (Str []), Val (Str ''TOTAL''), Val (Str (fmt t))],
            [Val (Str []), Val (Str ''Received''), Val (Str (''('' @ fmt r @ '')''))],
            [Val (Str []), Val (Str ''Balance''), Val (Str (fmt (t - r)))]]"
  by (simp add: worker_pdf_def Let_def)

lemma worker_pdf_items:
  "worker_pdf fmt pystr cn ca cp ce qn dt cl cla rows t r di ! 2 =
     Table (map (\<lambda>h. Par h ''SimSunBold'') [''Items'', ''Units'', ''Cost Per Unit'', ''Amount'']
            # map (map (\<lambda>col. Par (str pystr col) ''SimSun'')) rows)"
  by (simp add: worker_pdf_def Let_def)

section \<open>What the libraries are given\<close>

lemma written_ws:
  "written (ws_cell r c v ws) = written ws @ [v]"
  "written (ws_touch r c ws) = written ws"
  "written (ws_append vs ws) = written ws @ vs"
  "written (Workbook_active :: 'n worksheet) = []"
  by (simp_all add: ws_cell_def ws_touch_def ws_append_def Workbook_active_def Let_def)

lemma written_fold_touch:
  "written (fold (ws_touch r) cs ws) = written ws"
  "written (fold (\<lambda>c ws. ws_touch (max_row ws) c ws) cs ws) = written ws"
  by (induction cs arbitrary: ws) (simp_all add: written_ws)

lemma written_fold_touch_rows:
  "written (fold (\<lambda>c. fold (\<lambda>r. ws_touch r c) rs) cs ws) = written ws"
proof (induction cs arbitrary: ws)
  case Nil
  show ?case by simp
next
  case (Cons c cs)
  have "written (fold (\<lambda>r. ws_touch r c) rs ws) = written ws" for ws :: "'a worksheet"
    by (induction rs arbitrary: ws) (simp_all add: written_ws)
  with Cons show ?case by simp
qed

lemma written_fold_excel_item_row:
  "written (snd (fold excel_item_row items (r, ws))) =
     written ws @
     concat (map (\<lambda>it. [Str (name it), Num (quantity it), Num (price it), Num (amount it)])
               items)"
  by (induction items arbitrary: r ws) (simp_all add: excel_item_row_def Let_def written_ws)

lemma written_fold_ws_append:
  "written (fold ws_append rows ws) = written ws @ concat rows"
  by (induction rows arbitrary: ws) (simp_all add: written_ws)

lemma written_excel_workbook:
  "written (excel_workbook cn ca cp ce qn dt cl cla its t r b di) =
     [Str cn, Str ca, Str (''Tel: '' @ cp @ '' Email: '' @ ce), Str zh_quotation,
      Str (zh_client_name @ '':''), Str cl, Str (zh_quotation_no @ '':''), Str qn,
      Str (zh_client_address @ '':''), Str cla, Str (zh_date @ '':''), Str dt,
      Str zh_item, Str zh_quantity, Str zh_price, Str zh_amount] @
     concat (map (\<lambda>it. [Str (name it), Num (quantity it), Num (price it), Num (amount it)])
               its) @
     [Str (zh_total @ '':''), Num t, Str (zh_received @ '':''), Num r,
      Str (zh_balance @ '':''), Num b, Str (zh_deposit_info @ '': '' @ di)]"
  by (simp add: excel_workbook_def Let_def split_beta written_ws written_fold_touch
      written_fold_excel_item_row del: fold_simps)

lemma written_worker_excel_head:
  "written (worker_excel_head cn ca cp ce qn dt cl cla) =
     [Str ''Quotation'', Str cn, Str ca, Str cp, Str ce, Str ''Quotation No:'', Str qn,
      Str ''Date:'', Str dt, Str ''To:'', Str cl, Str ''Address:'', Str cla,
      Str ''Items'', Str ''Units'', Str ''Cost Per Unit'', Str ''Amount'']"
  by (simp add: worker_excel_head_def Let_def written_ws written_fold_touch
      written_fold_touch_rows del: upt_Suc fold_simps)

lemma written_worker_excel:
  "written (worker_excel fmt cn ca cp ce qn dt cl cla rows t r di) =
     written (worker_excel_head cn ca cp ce qn dt cl cla) @ concat rows @
     [Str ''TOTAL'', Str (fmt t), Str ''Received'', Str (''('' @ fmt r @ '')''),
      Str ''Balance'', Str (fmt (t - r)), Str di]"
  by (simp add: worker_excel_def Let_def written_ws written_fold_ws_append)

lemma paragraphs_pdf_elements:
  "concat (map paragraphs (pdf_elements cn ca cp ce qn dt cl cla its t r b di)) =
     [cn, ca, ''Tel: '' @ cp @ '' Email: '' @ ce, zh_quotation, zh_deposit_info @ '': '' @ di]"
proof -
  have "concat (map (\<lambda>row. concat (map (\<lambda>e. case e of Par t style \<Rightarrow> [t] | Val v \<Rightarrow> []) row))
          (map (\<lambda>item. [Val (Str (name item)), Val (Num (quantity item)),
                         Val (Num (price item)), Val (Num (amount item)) :: 'a entry]) its)) = []"
    by (induction its) simp_all
  then show ?thesis
    by (simp add: pdf_elements_def Let_def)
qed

lemma paragraphs_worker_pdf:
  "concat (map paragraphs (worker_pdf fmt pystr cn ca cp ce qn dt cl cla rows t r di)) =
     [''<b>Quotation</b>'', ''Quotation No: '' @ qn, cn, ''Date: '' @ dt, ca, ''To: '' @ cl,
      cp, ''Address: '' @ cla, ce, ''Items'', ''Units'', ''Cost Per Unit'', ''Amount''] @
     concat (map (map (str pystr)) rows) @ [di, ''Thank you for your business!'']"
proof -
  have "concat (map (\<lambda>row. concat (map (\<lambda>e. case e of Par t style \<Rightarrow> [t] | Val v \<Rightarrow> []) row))
          (map (map (\<lambda>col. Par (str pystr col) ''SimSun'' :: 'a entry)) rows))
        = concat (map (map (str pystr)) rows)"
  proof (induction rows)
    case Nil
    show ?case by simp
  next
    case (Cons row rows)
    have "concat (map (\<lambda>e. case e of Par t style \<Rightarrow> [t] | Val v \<Rightarrow> [])
            (map (\<lambda>col. Par (str pystr col) ''SimSun'' :: 'a entry) row)) = map (str pystr) row"
      by (induction row) simp_all
    with Cons show ?case by simp
  qed
  then show ?thesis
    by (simp add: worker_pdf_def Let_def)
qed


section \<open>The examples, evaluated\<close>

lemma decimal_examples:
  "decimal ''2'' = Some 2" "decimal ''10.0'' = Some 10" "decimal ''1'' = Some 1"
  "decimal ''25.0'' = Some 25" "decimal ''20'' = Some 20" "decimal ''0'' = Some 0"
  "decimal ''50'' = Some 50" "decimal ''1234.5'' = Some 1234.5" "decimal ''1000'' = Some 1000"
  "decimal [] = None" "decimal ''abc'' = None"
  by (simp_all add: decimal_def digit_def)

lemma widget_generate:
  "generate decimal widget_form =
     Inr (\<lparr>company_name = ''ACME'', company_address = ''1 Main St'', company_phone = ''555'',
           company_email = ''a@b.c'', quotation_no = ''Q1'', date = ''2024-01-01'',
           client_name = ''Bob'', client_address = ''2 Side St'', received = 20,
           deposit_info = [], total_amount = 45, balance = 25\<rparr>,
          [\<lparr>name = ''Widget'', quantity = 2, price = 10, amount = 20\<rparr>,
           \<lparr>name = ''Gadget'', quantity = 1, price = 25, amount = 25\<rparr>])"
  by (simp add: generate_def and_then_def form_getitem_def form_get_def py_or_def float_def
      getlist_def generate_body_def getitem_def Let_def widget_form_def company_form_def
      decimal_examples)


lemma names_of_named_rows: "map ((!) ns) (named_rows ns) = filter (\<lambda>n. n \<noteq> []) ns"
proof -
  have "filter (\<lambda>n. n \<noteq> []) (map ((!) ns) [0..<length ns])
          = map ((!) ns) (filter (\<lambda>i. ns ! i \<noteq> []) [0..<length ns])"
    by (simp add: filter_map comp_def)
  then show ?thesis by (simp add: named_rows_def map_nth)
qed

lemma generate_items:
  assumes "generate pf f = Inr (d, its)"
  shows "its = map (row_item pf (f ''item_name[]'') (f ''quantity[]'') (f ''price[]''))
                 (named_rows (f ''item_name[]''))"
    and "list_all (row_parses pf (f ''quantity[]'') (f ''price[]'')) (named_rows (f ''item_name[]''))"
    and "total_amount d = foldl (+) 0 (map (\<lambda>it. quantity it * price it) its)"
    and "balance d = total_amount d - received d"
    and "pf (py_or (form_get f ''received'' ''0'') ''0'') = Some (received d)"
  using assms unfolding generate_Inr by (auto simp: row_item_def comp_def)

text \<open>Adding from the left is the sum of the list, where addition is associative.\<close>

lemma left_sum_is_sum_list: "foldl (+) a xs = a + sum_list (xs :: 'a::monoid_add list)"
  by (induction xs arbitrary: a) (simp_all add: add.assoc)

text \<open>
  Claim C1. For every form submission that is answered, the computed \<open>total_amount\<close> is
  the sum of quantity times price over exactly the rows whose name is not empty, added
  from the left starting at 0 (the order matters to floats only; see
  \<open>left_sum_is_sum_list\<close>); the rows with an empty name add nothing and are not in the
  computed list of items, whose names are the non-empty names of the form in their order.
  The second entry point shows the same rows and the same total in its documents. For the
  items (Widget, 2, 10.0), (empty name, 5, 3.0), (Gadget, 1, 25.0) and 20 received, the
  total is 45 and the balance 25.
\<close>

theorem total_amount_sums_named_rows:
  fixes pf :: "string \<Rightarrow> ('n::{zero,plus,minus,times}) option"
  shows
  "(generate pf f = Inr (d, its) \<longrightarrow>
      list_all (row_parses pf (f ''quantity[]'') (f ''price[]'')) (named_rows (f ''item_name[]'')) \<and>
      its = map (row_item pf (f ''item_name[]'') (f ''quantity[]'') (f ''price[]''))
              (named_rows (f ''item_name[]'')) \<and>
      map name its = filter (\<lambda>n. n \<noteq> []) (f ''item_name[]'') \<and>
      list_all (\<lambda>it. amount it = quantity it * price it) its \<and>
      total_amount d = foldl (+) 0 (map (\<lambda>it. quantity it * price it) its)) \<and>
   (worker_create_files L pf fmt pystr f = Inr fl \<longrightarrow>
      (\<exists>d its. generate pf f = Inr (d, its) \<and>
         pdf_story fl ! 2 =
           Table (map (\<lambda>h. Par h ''SimSunBold'') [''Items'', ''Units'', ''Cost Per Unit'', ''Amount'']
                  # map (\<lambda>it. [Par (name it) ''SimSun'', Par (pystr (quantity it)) ''SimSun'',
                                 Par (fmt (price it)) ''SimSun'', Par (fmt (amount it)) ''SimSun'']) its) \<and>
         cells (excel_sheet fl) (9 + length its, 4) = Some (Str (fmt (total_amount d))))) \<and>
   (\<exists>d its. generate decimal widget_form = Inr (d, its) \<and> map name its = [''Widget'', ''Gadget''] \<and>
      received d = 20 \<and> total_amount d = 45 \<and> balance d = 25)"
proof (intro conjI impI)
  assume g: "generate pf f = Inr (d, its)"
  show "list_all (row_parses pf (f ''quantity[]'') (f ''price[]'')) (named_rows (f ''item_name[]''))"
    by (rule generate_items(2)[OF g])
  show its: "its = map (row_item pf (f ''item_name[]'') (f ''quantity[]'') (f ''price[]''))
              (named_rows (f ''item_name[]''))"
    by (rule generate_items(1)[OF g])
  have "map name its = map ((!) (f ''item_name[]'')) (named_rows (f ''item_name[]''))"
    unfolding its by (simp add: row_item_def)
  then show "map name its = filter (\<lambda>n. n \<noteq> []) (f ''item_name[]'')"
    by (simp only: names_of_named_rows)
  show "list_all (\<lambda>it. amount it = quantity it * price it) its"
    unfolding its by (simp add: list_all_iff row_item_def)
  show "total_amount d = foldl (+) 0 (map (\<lambda>it. quantity it * price it) its)"
    by (rule generate_items(3)[OF g])
next
  assume w: "worker_create_files L pf fmt pystr f = Inr fl"
  then obtain d its where g: "generate pf f = Inr (d, its)"
    and fl: "fl = worker_exported fmt pystr d its"
    unfolding worker_create_files_Inr by blast
  have "list_all (\<lambda>vs. vs \<noteq> []) (map (worker_row fmt) its)"
    by (simp add: list_all_iff worker_row_def)
  then have "cells (excel_sheet fl) (9 + length its, 4) = Some (Str (fmt (total_amount d)))"
    unfolding fl worker_exported_def using worker_excel_summary(1)[of "map (worker_row fmt) its"]
    by simp
  moreover have "pdf_story fl ! 2 =
           Table (map (\<lambda>h. Par h ''SimSunBold'') [''Items'', ''Units'', ''Cost Per Unit'', ''Amount'']
                  # map (\<lambda>it. [Par (name it) ''SimSun'', Par (pystr (quantity it)) ''SimSun'',
                                 Par (fmt (price it)) ''SimSun'', Par (fmt (amount it)) ''SimSun'']) its)"
    unfolding fl worker_exported_def by (simp add: worker_pdf_items worker_row_def str_def comp_def)
  ultimately show "\<exists>d its. generate pf f = Inr (d, its) \<and>
         pdf_story fl ! 2 =
           Table (map (\<lambda>h. Par h ''SimSunBold'') [''Items'', ''Units'', ''Cost Per Unit'', ''Amount'']
                  # map (\<lambda>it. [Par (name it) ''SimSun'', Par (pystr (quantity it)) ''SimSun'',
                                 Par (fmt (price it)) ''SimSun'', Par (fmt (amount it)) ''SimSun'']) its) \<and>
         cells (excel_sheet fl) (9 + length its, 4) = Some (Str (fmt (total_amount d)))"
    using g by blast
next
  show "\<exists>d its. generate decimal widget_form = Inr (d, its) \<and> map name its = [''Widget'', ''Gadget''] \<and>
      received d = 20 \<and> total_amount d = 45 \<and> balance d = 25"
    by (simp add: widget_generate)
qed


theorem total_amount_sums_named_rows_witness:
  "\<exists>d its. generate decimal widget_form = Inr (d, its) \<and>
     map name its = filter (\<lambda>n. n \<noteq> []) [''Widget'', [], ''Gadget''] \<and>
     list_all (\<lambda>it. amount it = quantity it * price it) its \<and>
     total_amount d = foldl (+) 0 (map (\<lambda>it. quantity it * price it) its) \<and>
     foldl (+) 0 (map (\<lambda>it. quantity it * price it) its) = 2 * 10 + 1 * 25"
  using total_amount_sums_named_rows[where pf = decimal and f = widget_form, THEN conjunct1]
    widget_generate
  by (simp add: widget_form_def)

lemma generate_overpaid:
  "generate decimal (widget_form(''received'' := [''50''])) =
     Inr (\<lparr>company_name = ''ACME'', company_address = ''1 Main St'', company_phone = ''555'',
           company_email = ''a@b.c'', quotation_no = ''Q1'', date = ''2024-01-01'',
           client_name = ''Bob'', client_address = ''2 Side St'', received = 50,
           deposit_info = [], total_amount = 45, balance = - 5\<rparr>,
          [\<lparr>name = ''Widget'', quantity = 2, price = 10, amount = 20\<rparr>,
           \<lparr>name = ''Gadget'', quantity = 1, price = 25, amount = 25\<rparr>])"
  by (simp add: generate_def and_then_def form_getitem_def form_get_def py_or_def float_def
      getlist_def generate_body_def getitem_def Let_def widget_form_def company_form_def
      decimal_examples)

lemma exported_totals:
  "cells (excel_sheet (exported d its)) (10 + length its, 4) = Some (Num (total_amount d))"
  "cells (excel_sheet (exported d its)) (11 + length its, 4) = Some (Num (received d))"
  "cells (excel_sheet (exported d its)) (12 + length its, 4) = Some (Num (balance d))"
  "pdf_story (exported d its) ! 9 =
     Table [[Val (Str []), Val (Str []), Val (Str (zh_total @ '':'')), Val (Num (total_amount d))],
            [Val (Str []), Val (Str []), Val (Str (zh_received @ '':'')), Val (Num (received d))],
            [Val (Str []), Val (Str []), Val (Str (zh_balance @ '':'')), Val (Num (balance d))]]"
  by (simp_all add: exported_def generate_excel_totals generate_pdf_totals)

lemma worker_exported_totals:
  "cells (excel_sheet (worker_exported fmt pystr d its)) (9 + length its, 4)
     = Some (Str (fmt (total_amount d)))"
  "cells (excel_sheet (worker_exported fmt pystr d its)) (10 + length its, 4)
     = Some (Str (''('' @ fmt (received d) @ '')''))"
  "cells (excel_sheet (worker_exported fmt pystr d its)) (11 + length its, 4)
     = Some (Str (fmt (total_amount d - received d)))"
  "pdf_story (worker_exported fmt pystr d its) ! 3 =
     Table [[Val (Str []), Val (Str ''TOTAL''), Val (Str (fmt (total_amount d)))],
            [Val (Str []), Val (Str ''Received''), Val (Str (''('' @ fmt (received d) @ '')''))],
            [Val (Str []), Val (Str ''Balance''), Val (Str (fmt (total_amount d - received d)))]]"
proof -
  have ne: "list_all (\<lambda>vs. vs \<noteq> []) (map (worker_row fmt) its)"
    by (simp add: list_all_iff worker_row_def)
  show "cells (excel_sheet (worker_exported fmt pystr d its)) (9 + length its, 4)
     = Some (Str (fmt (total_amount d)))"
    using worker_excel_summary(1)[OF ne] by (simp add: worker_exported_def)
  show "cells (excel_sheet (worker_exported fmt pystr d its)) (10 + length its, 4)
     = Some (Str (''('' @ fmt (received d) @ '')''))"
    using worker_excel_summary(2)[OF ne] by (simp add: worker_exported_def)
  show "cells (excel_sheet (worker_exported fmt pystr d its)) (11 + length its, 4)
     = Some (Str (fmt (total_amount d - received d)))"
    using worker_excel_summary(3)[OF ne] by (simp add: worker_exported_def)
  show "pdf_story (worker_exported fmt pystr d its) ! 3 =
     Table [[Val (Str []), Val (Str ''TOTAL''), Val (Str (fmt (total_amount d)))],
            [Val (Str []), Val (Str ''Received''), Val (Str (''('' @ fmt (received d) @ '')''))],
            [Val (Str []), Val (Str ''Balance''), Val (Str (fmt (total_amount d - received d)))]]"
    by (simp add: worker_exported_def worker_pdf_summary)
qed

text \<open>
  Claim C2. The balance is the total minus the received amount, in the preview, in the
  values handed to the exporters of \<^verbatim>\<open>app.py\<close> and in the documents of the second entry
  point; nothing clamps it, so it is negative when the received amount exceeds the total
  (for an arithmetic that is an ordered group).
\<close>

theorem balance_is_total_minus_received:
  fixes pf :: "string \<Rightarrow> ('n::{zero,plus,minus,times}) option"
    and pg :: "string \<Rightarrow> ('m::{times,ordered_ab_group_add}) option"
  shows
  "(generate pf f = Inr (d, its) \<longrightarrow> balance d = total_amount d - received d) \<and>
   (create_files L pf f = Inr fl \<longrightarrow>
      (\<exists>d its. generate pf f = Inr (d, its) \<and>
         cells (excel_sheet fl) (10 + length its, 4) = Some (Num (total_amount d)) \<and>
         cells (excel_sheet fl) (11 + length its, 4) = Some (Num (received d)) \<and>
         cells (excel_sheet fl) (12 + length its, 4) = Some (Num (total_amount d - received d)))) \<and>
   (worker_create_files L pf fmt pystr f = Inr wl \<longrightarrow>
      (\<exists>d its. generate pf f = Inr (d, its) \<and>
         cells (excel_sheet wl) (11 + length its, 4)
           = Some (Str (fmt (total_amount d - received d))) \<and>
         pdf_story wl ! 3 =
           Table [[Val (Str []), Val (Str ''TOTAL''), Val (Str (fmt (total_amount d)))],
                  [Val (Str []), Val (Str ''Received''), Val (Str (''('' @ fmt (received d) @ '')''))],
                  [Val (Str []), Val (Str ''Balance''),
                   Val (Str (fmt (total_amount d - received d)))]])) \<and>
   (generate pg g = Inr (e, ets) \<longrightarrow> total_amount e < received e \<longrightarrow> balance e < 0)"
proof (intro conjI impI)
  assume "generate pf f = Inr (d, its)"
  then show "balance d = total_amount d - received d" by (rule generate_items(4))
next
  assume "create_files L pf f = Inr fl"
  then obtain d its where g: "generate pf f = Inr (d, its)" and fl: "fl = exported d its"
    unfolding create_files_Inr by blast
  from g have "balance d = total_amount d - received d" by (rule generate_items(4))
  with g show "\<exists>d its. generate pf f = Inr (d, its) \<and>
         cells (excel_sheet fl) (10 + length its, 4) = Some (Num (total_amount d)) \<and>
         cells (excel_sheet fl) (11 + length its, 4) = Some (Num (received d)) \<and>
         cells (excel_sheet fl) (12 + length its, 4) = Some (Num (total_amount d - received d))"
    unfolding fl using exported_totals(1-3)[of d its] by metis
next
  assume "worker_create_files L pf fmt pystr f = Inr wl"
  then obtain d its where g: "generate pf f = Inr (d, its)"
    and wl: "wl = worker_exported fmt pystr d its"
    unfolding worker_create_files_Inr by blast
  show "\<exists>d its. generate pf f = Inr (d, its) \<and>
         cells (excel_sheet wl) (11 + length its, 4)
           = Some (Str (fmt (total_amount d - received d))) \<and>
         pdf_story wl ! 3 =
           Table [[Val (Str []), Val (Str ''TOTAL''), Val (Str (fmt (total_amount d)))],
                  [Val (Str []), Val (Str ''Received''), Val (Str (''('' @ fmt (received d) @ '')''))],
                  [Val (Str []), Val (Str ''Balance''),
                   Val (Str (fmt (total_amount d - received d)))]]"
    unfolding wl using g worker_exported_totals(3,4)[of fmt pystr d its] by blast
next
  assume g: "generate pg g = Inr (e, ets)" and lt: "total_amount e < received e"
  from g have "balance e = total_amount e - received e" by (rule generate_items(4))
  with lt show "balance e < 0" by simp
qed

theorem balance_is_total_minus_received_witness:
  "\<exists>d its. generate decimal (widget_form(''received'' := [''50''])) = Inr (d, its) \<and>
     total_amount d = 45 \<and> received d = 50 \<and> total_amount d < received d \<and>
     balance d = total_amount d - received d \<and> balance d = - 5 \<and> balance d < 0"
  using balance_is_total_minus_received[where pf = decimal and pg = decimal
      and f = "widget_form(''received'' := [''50''])"
      and g = "widget_form(''received'' := [''50''])"]
    generate_overpaid
  by simp

lemma widget_preview: "generate decimal widget_form = Inr (widget_data, widget_items)"
  by (simp add: widget_generate widget_data_def widget_items_def)

lemma value_ok_simps:
  "value_ok L (Num x) = True" "value_ok L (Str t) = cell_ok L t"
  by (simp_all add: value_ok_def)

lemma plain_cell: "cell_ok plain_libs t = list_all (\<lambda>c. \<not> control_char c) t"
  by (simp add: plain_libs_def)

lemma plain_para:
  "para_ok plain_libs t =
     (t = ''<b>Quotation</b>'' \<or> list_all (\<lambda>c. c \<noteq> CHR ''<'' \<and> c \<noteq> CHR ''&'') t)"
  by (simp add: plain_libs_def)

lemma plain_path:
  "path_ok plain_libs t = list_all (\<lambda>c. c \<noteq> CHR ''/'' \<and> c \<noteq> CHR 0x00) t"
  by (simp add: plain_libs_def)

lemmas plain = plain_cell plain_para plain_path value_ok_simps control_char_def

lemmas zh =
  zh_quotation_def zh_client_name_def zh_quotation_no_def zh_client_address_def zh_date_def
  zh_item_def zh_quantity_def zh_price_def zh_amount_def zh_total_def zh_received_def
  zh_balance_def zh_deposit_info_def

lemma widget_files:
  "checked plain_libs (exported widget_data widget_items)
     = Inr (exported widget_data widget_items)"
  unfolding checked_Inr_iff
  by (simp add: exported_def written_excel_workbook paragraphs_pdf_elements plain zh
      widget_data_def widget_items_def)

lemma widget_worker_files:
  "checked plain_libs (worker_exported two_decimals float_str widget_data widget_items)
     = Inr (worker_exported two_decimals float_str widget_data widget_items)"
  unfolding checked_Inr_iff
  by (simp add: worker_exported_def written_worker_excel written_worker_excel_head
      paragraphs_worker_pdf plain worker_row_def str_def two_decimals_def float_str_def
      widget_data_def widget_items_def)

lemma widget_create_files:
  "create_files plain_libs decimal widget_form = Inr (exported widget_data widget_items)"
  by (simp add: create_files_refines widget_preview widget_files)

lemma widget_worker_create_files:
  "worker_create_files plain_libs decimal two_decimals float_str widget_form
     = Inr (worker_exported two_decimals float_str widget_data widget_items)"
  by (simp add: worker_create_files_refines widget_preview widget_worker_files)

text \<open>A form without a date, and a quotation number with slashes in it.\<close>

lemma missing_date:
  "generate decimal (widget_form(''date'' := [])) = Inl BadRequestKeyError"
  by (simp add: generate_def and_then_def form_getitem_def widget_form_def company_form_def)

lemma slash_preview:
  "generate decimal (widget_form(''quotation_no'' := [''Q/2024/001'']))
     = Inr (widget_data\<lparr>quotation_no := ''Q/2024/001''\<rparr>, widget_items)"
  by (simp add: generate_def and_then_def form_getitem_def form_get_def py_or_def float_def
      getlist_def generate_body_def getitem_def Let_def widget_form_def company_form_def
      decimal_examples widget_data_def widget_items_def)

lemma slash_files:
  "checked plain_libs (exported (widget_data\<lparr>quotation_no := ''Q/2024/001''\<rparr>) widget_items)
     = Inl OSError"
  by (simp add: checked_def and_then_def wb_save_def exported_def written_excel_workbook
      plain zh widget_data_def widget_items_def)

lemma slash_worker_files:
  "checked plain_libs
     (worker_exported two_decimals float_str (widget_data\<lparr>quotation_no := ''Q/2024/001''\<rparr>)
        widget_items)
     = Inr (worker_exported two_decimals float_str
              (widget_data\<lparr>quotation_no := ''Q/2024/001''\<rparr>) widget_items)"
  unfolding checked_Inr_iff
  by (simp add: worker_exported_def written_worker_excel written_worker_excel_head
      paragraphs_worker_pdf plain worker_row_def str_def two_decimals_def float_str_def
      widget_data_def widget_items_def)

text \<open>
  Claim C3. For one form input, whenever \<^verbatim>\<open>create_files\<close> produces its two files, the
  preview of the same input succeeds and the total, the received amount and the balance
  it computes are the values in the spreadsheet (column D of the three rows below the
  items) and in the PDF (the totals table); the second entry point writes the same three
  values, formatted, into both of its documents. Where the preview fails, the
  file-creating handlers fail the same way. Where the preview succeeds, each handler
  builds the documents of the preview's values and fails only where a library refuses
  them (\<open>checked\<close>): a quotation number with a slash in it is previewed, and the second
  entry point, which writes under fixed names, makes its files, but \<^verbatim>\<open>create_files\<close> of
  \<^verbatim>\<open>app.py\<close> fails on the file name.
\<close>

theorem preview_and_documents_agree:
  fixes pf :: "string \<Rightarrow> ('n::{zero,plus,minus,times}) option"
  shows
  "(create_files L pf f = Inr fl \<longrightarrow>
      (\<exists>d its. generate pf f = Inr (d, its) \<and>
         cells (excel_sheet fl) (10 + length its, 4) = Some (Num (total_amount d)) \<and>
         cells (excel_sheet fl) (11 + length its, 4) = Some (Num (received d)) \<and>
         cells (excel_sheet fl) (12 + length its, 4) = Some (Num (balance d)) \<and>
         pdf_story fl ! 9 =
           Table [[Val (Str []), Val (Str []), Val (Str (zh_total @ '':'')),
                   Val (Num (total_amount d))],
                  [Val (Str []), Val (Str []), Val (Str (zh_received @ '':'')),
                   Val (Num (received d))],
                  [Val (Str []), Val (Str []), Val (Str (zh_balance @ '':'')),
                   Val (Num (balance d))]])) \<and>
   (worker_create_files L pf fmt pystr f = Inr wl \<longrightarrow>
      (\<exists>d its. generate pf f = Inr (d, its) \<and>
         cells (excel_sheet wl) (9 + length its, 4) = Some (Str (fmt (total_amount d))) \<and>
         cells (excel_sheet wl) (10 + length its, 4)
           = Some (Str (''('' @ fmt (received d) @ '')'')) \<and>
         cells (excel_sheet wl) (11 + length its, 4) = Some (Str (fmt (balance d))) \<and>
         pdf_story wl ! 3 =
           Table [[Val (Str []), Val (Str ''TOTAL''), Val (Str (fmt (total_amount d)))],
                  [Val (Str []), Val (Str ''Received''),
                   Val (Str (''('' @ fmt (received d) @ '')''))],
                  [Val (Str []), Val (Str ''Balance''), Val (Str (fmt (balance d)))]])) \<and>
   (generate pf f = Inl e \<longrightarrow>
      create_files L pf f = Inl e \<and> worker_create_files L pf fmt pystr f = Inl e) \<and>
   (generate pf f = Inr (d', its') \<longrightarrow>
      create_files L pf f = checked L (exported d' its') \<and>
      worker_create_files L pf fmt pystr f = checked L (worker_exported fmt pystr d' its'))"
proof (intro conjI impI)
  assume "create_files L pf f = Inr fl"
  then obtain d its where g: "generate pf f = Inr (d, its)" and fl: "fl = exported d its"
    unfolding create_files_Inr by blast
  show "\<exists>d its. generate pf f = Inr (d, its) \<and>
         cells (excel_sheet fl) (10 + length its, 4) = Some (Num (total_amount d)) \<and>
         cells (excel_sheet fl) (11 + length its, 4) = Some (Num (received d)) \<and>
         cells (excel_sheet fl) (12 + length its, 4) = Some (Num (balance d)) \<and>
         pdf_story fl ! 9 =
           Table [[Val (Str []), Val (Str []), Val (Str (zh_total @ '':'')),
                   Val (Num (total_amount d))],
                  [Val (Str []), Val (Str []), Val (Str (zh_received @ '':'')),
                   Val (Num (received d))],
                  [Val (Str []), Val (Str []), Val (Str (zh_balance @ '':'')),
                   Val (Num (balance d))]]"
    unfolding fl
    by (rule exI[of _ d], rule exI[of _ its]) (simp add: g exported_totals)
next
  assume "worker_create_files L pf fmt pystr f = Inr wl"
  then obtain d its where g: "generate pf f = Inr (d, its)"
    and wl: "wl = worker_exported fmt pystr d its"
    unfolding worker_create_files_Inr by blast
  from g have b: "balance d = total_amount d - received d" by (rule generate_items(4))
  show "\<exists>d its. generate pf f = Inr (d, its) \<and>
         cells (excel_sheet wl) (9 + length its, 4) = Some (Str (fmt (total_amount d))) \<and>
         cells (excel_sheet wl) (10 + length its, 4)
           = Some (Str (''('' @ fmt (received d) @ '')'')) \<and>
         cells (excel_sheet wl) (11 + length its, 4) = Some (Str (fmt (balance d))) \<and>
         pdf_story wl ! 3 =
           Table [[Val (Str []), Val (Str ''TOTAL''), Val (Str (fmt (total_amount d)))],
                  [Val (Str []), Val (Str ''Received''),
                   Val (Str (''('' @ fmt (received d) @ '')''))],
                  [Val (Str []), Val (Str ''Balance''), Val (Str (fmt (balance d)))]]"
    unfolding wl
    by (rule exI[of _ d], rule exI[of _ its]) (simp add: g b worker_exported_totals)
next
  assume "generate pf f = Inl e"
  then show "create_files L pf f = Inl e" by (simp add: create_files_refines)
next
  assume "generate pf f = Inl e"
  then show "worker_create_files L pf fmt pystr f = Inl e"
    by (simp add: worker_create_files_refines)
next
  assume "generate pf f = Inr (d', its')"
  then show "create_files L pf f = checked L (exported d' its')"
    by (simp add: create_files_refines)
next
  assume "generate pf f = Inr (d', its')"
  then show "worker_create_files L pf fmt pystr f
               = checked L (worker_exported fmt pystr d' its')"
    by (simp add: worker_create_files_refines)
qed

theorem preview_and_documents_agree_witness:
  "(\<exists>d its fl wl. generate decimal widget_form = Inr (d, its) \<and>
      total_amount d = 45 \<and> received d = 20 \<and> balance d = 25 \<and> length its = 2 \<and>
      create_files plain_libs decimal widget_form = Inr fl \<and>
      cells (excel_sheet fl) (12, 4) = Some (Num 45) \<and>
      cells (excel_sheet fl) (13, 4) = Some (Num 20) \<and>
      cells (excel_sheet fl) (14, 4) = Some (Num 25) \<and>
      pdf_story fl ! 9 =
        Table [[Val (Str []), Val (Str []), Val (Str (zh_total @ '':'')), Val (Num 45)],
               [Val (Str []), Val (Str []), Val (Str (zh_received @ '':'')), Val (Num 20)],
               [Val (Str []), Val (Str []), Val (Str (zh_balance @ '':'')), Val (Num 25)]] \<and>
      worker_create_files plain_libs decimal two_decimals float_str widget_form = Inr wl \<and>
      cells (excel_sheet wl) (11, 4) = Some (Str ''45.00'') \<and>
      cells (excel_sheet wl) (12, 4) = Some (Str ''(20.00)'') \<and>
      cells (excel_sheet wl) (13, 4) = Some (Str ''25.00'') \<and>
      pdf_story wl ! 3 =
        Table [[Val (Str []), Val (Str ''TOTAL''), Val (Str ''45.00'')],
               [Val (Str []), Val (Str ''Received''), Val (Str ''(20.00)'')],
               [Val (Str []), Val (Str ''Balance''), Val (Str ''25.00'')]]) \<and>
   generate decimal (widget_form(''date'' := [])) = Inl BadRequestKeyError \<and>
   create_files plain_libs decimal (widget_form(''date'' := [])) = Inl BadRequestKeyError \<and>
   worker_create_files plain_libs decimal two_decimals float_str (widget_form(''date'' := []))
     = Inl BadRequestKeyError \<and>
   (\<exists>d its wl. generate decimal (widget_form(''quotation_no'' := [''Q/2024/001'']))
        = Inr (d, its) \<and>
      quotation_no d = ''Q/2024/001'' \<and> total_amount d = 45 \<and>
      create_files plain_libs decimal (widget_form(''quotation_no'' := [''Q/2024/001'']))
        = Inl OSError \<and>
      worker_create_files plain_libs decimal two_decimals float_str
          (widget_form(''quotation_no'' := [''Q/2024/001''])) = Inr wl \<and>
      excel_file wl = ''Quotation.xlsx'')"
proof -
  note t = preview_and_documents_agree[where L = plain_libs and pf = decimal
      and fmt = two_decimals and pystr = float_str]
  have v: "total_amount widget_data = 45" "received widget_data = 20"
    "balance widget_data = 25" "length widget_items = 2"
    by (simp_all add: widget_data_def widget_items_def)
  have a: "cells (excel_sheet (exported widget_data widget_items)) (12, 4) = Some (Num 45) \<and>
      cells (excel_sheet (exported widget_data widget_items)) (13, 4) = Some (Num 20) \<and>
      cells (excel_sheet (exported widget_data widget_items)) (14, 4) = Some (Num 25) \<and>
      pdf_story (exported widget_data widget_items) ! 9 =
        Table [[Val (Str []), Val (Str []), Val (Str (zh_total @ '':'')), Val (Num 45)],
               [Val (Str []), Val (Str []), Val (Str (zh_received @ '':'')), Val (Num 20)],
               [Val (Str []), Val (Str []), Val (Str (zh_balance @ '':'')), Val (Num 25)]]"
    using t[where f = widget_form, THEN conjunct1, rule_format, OF widget_create_files]
    by (auto simp: widget_preview v)
  have b: "cells (excel_sheet (worker_exported two_decimals float_str widget_data widget_items))
        (11, 4) = Some (Str ''45.00'') \<and>
      cells (excel_sheet (worker_exported two_decimals float_str widget_data widget_items))
        (12, 4) = Some (Str ''(20.00)'') \<and>
      cells (excel_sheet (worker_exported two_decimals float_str widget_data widget_items))
        (13, 4) = Some (Str ''25.00'') \<and>
      pdf_story (worker_exported two_decimals float_str widget_data widget_items) ! 3 =
        Table [[Val (Str []), Val (Str ''TOTAL''), Val (Str ''45.00'')],
               [Val (Str []), Val (Str ''Received''), Val (Str ''(20.00)'')],
               [Val (Str []), Val (Str ''Balance''), Val (Str ''25.00'')]]"
    using t[where f = widget_form, THEN conjunct2, THEN conjunct1, rule_format,
        OF widget_worker_create_files]
    by (auto simp: widget_preview v two_decimals_def)
  have c: "create_files plain_libs decimal (widget_form(''date'' := [])) = Inl BadRequestKeyError"
    "worker_create_files plain_libs decimal two_decimals float_str (widget_form(''date'' := []))
       = Inl BadRequestKeyError"
    using t[where f = "widget_form(''date'' := [])", THEN conjunct2, THEN conjunct2,
        THEN conjunct1, rule_format, OF missing_date]
    by simp_all
  have d: "create_files plain_libs decimal (widget_form(''quotation_no'' := [''Q/2024/001'']))
        = Inl OSError"
    "worker_create_files plain_libs decimal two_decimals float_str
        (widget_form(''quotation_no'' := [''Q/2024/001'']))
      = Inr (worker_exported two_decimals float_str
               (widget_data\<lparr>quotation_no := ''Q/2024/001''\<rparr>) widget_items)"
    using t[where f = "widget_form(''quotation_no'' := [''Q/2024/001''])", THEN conjunct2,
        THEN conjunct2, THEN conjunct2, rule_format, OF slash_preview]
    by (simp_all add: slash_files slash_worker_files)
  have e: "excel_file (worker_exported two_decimals float_str
               (widget_data\<lparr>quotation_no := ''Q/2024/001''\<rparr>) widget_items) = ''Quotation.xlsx''"
    "quotation_no (widget_data\<lparr>quotation_no := ''Q/2024/001''\<rparr>) = ''Q/2024/001''"
    "total_amount (widget_data\<lparr>quotation_no := ''Q/2024/001''\<rparr>) = 45"
    by (simp_all add: worker_exported_def widget_data_def)
  show ?thesis
    using a b c d e v widget_preview widget_create_files widget_worker_create_files
      missing_date slash_preview
    by blast
qed

lemma received_missing:
  "f ''received'' = [] \<or> hd (f ''received'') = [] \<Longrightarrow>
   py_or (form_get f ''received'' ''0'') ''0'' = ''0''"
  by (cases "f ''received''") (auto simp: py_or_def form_get_def)

lemma generate_received_missing:
  assumes "f ''received'' = [] \<or> hd (f ''received'') = []"
  shows "generate pf f = generate pf (f(''received'' := [''0'']))"
  using received_missing[of f, OF assms]
  by (simp add: generate_def form_getitem_def getlist_def)
    (simp add: form_get_def py_or_def)

lemma generate_answers:
  fixes pf :: "string \<Rightarrow> ('n::{zero,plus,minus,times}) option"
  assumes "pf (py_or (form_get f ''received'' ''0'') ''0'') = Some z"
    and "list_all (\<lambda>k. f k \<noteq> [])
           [''company_name'', ''company_address'', ''company_phone'', ''company_email'',
            ''quotation_no'', ''date'', ''client_name'', ''client_address'']"
    and "list_all (row_parses pf (f ''quantity[]'') (f ''price[]''))
           (named_rows (f ''item_name[]''))"
  shows "\<exists>d its. generate pf f = Inr (d, its) \<and> received d = z"
  using assms unfolding generate_Inr by auto

text \<open>
  Claim C10. In the preview handler and in both file-creating handlers, a \<^verbatim>\<open>received\<close>
  field that is absent or empty gives the result of the same request with \<^verbatim>\<open>received\<close>
  set to the text 0. The received amount of the preview is \<^verbatim>\<open>float('0')\<close> and its balance
  the total minus that. The documents of either file-creating handler, where they are
  produced, hold the total computed from the rows, \<^verbatim>\<open>float('0')\<close> as the received amount
  and their difference as the balance. And the field makes no request fail: with the
  required fields present and the named rows parsing, the preview is answered, and a
  file-creating handler fails only where a library refuses the documents.
\<close>

theorem missing_received_is_zero:
  fixes pf :: "string \<Rightarrow> ('n::{zero,plus,minus,times}) option"
  assumes "f ''received'' = [] \<or> hd (f ''received'') = []"
  shows "generate pf f = generate pf (f(''received'' := [''0''])) \<and>
         create_files L pf f = create_files L pf (f(''received'' := [''0''])) \<and>
         worker_create_files L pf fmt pystr f
           = worker_create_files L pf fmt pystr (f(''received'' := [''0''])) \<and>
         (generate pf f = Inr (d', its') \<longrightarrow>
            pf ''0'' = Some (received d') \<and> balance d' = total_amount d' - received d') \<and>
   (create_files L pf f = Inr fl \<longrightarrow>
      (\<exists>d its. generate pf f = Inr (d, its) \<and> pf ''0'' = Some (received d) \<and>
         total_amount d = foldl (+) 0 (map (\<lambda>it. quantity it * price it) its) \<and>
         cells (excel_sheet fl) (10 + length its, 4) = Some (Num (total_amount d)) \<and>
         cells (excel_sheet fl) (11 + length its, 4) = Some (Num (received d)) \<and>
         cells (excel_sheet fl) (12 + length its, 4)
           = Some (Num (total_amount d - received d)) \<and>
         pdf_story fl ! 9 =
           Table [[Val (Str []), Val (Str []), Val (Str (zh_total @ '':'')),
                   Val (Num (total_amount d))],
                  [Val (Str []), Val (Str []), Val (Str (zh_received @ '':'')),
                   Val (Num (received d))],
                  [Val (Str []), Val (Str []), Val (Str (zh_balance @ '':'')),
                   Val (Num (total_amount d - received d))]])) \<and>
   (worker_create_files L pf fmt pystr f = Inr wl \<longrightarrow>
      (\<exists>d its. generate pf f = Inr (d, its) \<and> pf ''0'' = Some (received d) \<and>
         total_amount d = foldl (+) 0 (map (\<lambda>it. quantity it * price it) its) \<and>
         cells (excel_sheet wl) (9 + length its, 4) = Some (Str (fmt (total_amount d))) \<and>
         cells (excel_sheet wl) (10 + length its, 4)
           = Some (Str (''('' @ fmt (received d) @ '')'')) \<and>
         cells (excel_sheet wl) (11 + length its, 4)
           = Some (Str (fmt (total_amount d - received d))) \<and>
         pdf_story wl ! 3 =
           Table [[Val (Str []), Val (Str ''TOTAL''), Val (Str (fmt (total_amount d)))],
                  [Val (Str []), Val (Str ''Received''),
                   Val (Str (''('' @ fmt (received d) @ '')''))],
                  [Val (Str []), Val (Str ''Balance''), Val (Str (fmt (total_amount d - received d)))]])) \<and>
   (pf ''0'' = Some z \<and>
    list_all (\<lambda>k. f k \<noteq> [])
      [''company_name'', ''company_address'', ''company_phone'', ''company_email'',
       ''quotation_no'', ''date'', ''client_name'', ''client_address''] \<and>
    list_all (row_parses pf (f ''quantity[]'') (f ''price[]''))
      (named_rows (f ''item_name[]'')) \<longrightarrow>
      (\<exists>d its. generate pf f = Inr (d, its) \<and> received d = z \<and>
         create_files L pf f = checked L (exported d its) \<and>
         worker_create_files L pf fmt pystr f
           = checked L (worker_exported fmt pystr d its)))"
proof (intro conjI impI)
  show g: "generate pf f = generate pf (f(''received'' := [''0'']))"
    by (rule generate_received_missing[of f, OF assms])
  show "create_files L pf f = create_files L pf (f(''received'' := [''0'']))"
    by (simp only: create_files_refines g)
  show "worker_create_files L pf fmt pystr f
           = worker_create_files L pf fmt pystr (f(''received'' := [''0'']))"
    by (simp only: worker_create_files_refines g)
next
  assume g: "generate pf f = Inr (d', its')"
  show "pf ''0'' = Some (received d')"
    using generate_items(5)[OF g] received_missing[of f, OF assms] by simp
  show "balance d' = total_amount d' - received d'"
    by (rule generate_items(4)[OF g])
next
  assume "create_files L pf f = Inr fl"
  then obtain d its where g: "generate pf f = Inr (d, its)" and fl: "fl = exported d its"
    unfolding create_files_Inr by blast
  have r: "pf ''0'' = Some (received d)"
    using generate_items(5)[OF g] received_missing[of f, OF assms] by simp
  have b: "balance d = total_amount d - received d" by (rule generate_items(4)[OF g])
  have t: "total_amount d = foldl (+) 0 (map (\<lambda>it. quantity it * price it) its)"
    by (rule generate_items(3)[OF g])
  have x: "cells (excel_sheet fl) (10 + length its, 4) = Some (Num (total_amount d))"
    "cells (excel_sheet fl) (11 + length its, 4) = Some (Num (received d))"
    "cells (excel_sheet fl) (12 + length its, 4) = Some (Num (total_amount d - received d))"
    "pdf_story fl ! 9 =
           Table [[Val (Str []), Val (Str []), Val (Str (zh_total @ '':'')),
                   Val (Num (total_amount d))],
                  [Val (Str []), Val (Str []), Val (Str (zh_received @ '':'')),
                   Val (Num (received d))],
                  [Val (Str []), Val (Str []), Val (Str (zh_balance @ '':'')),
                   Val (Num (total_amount d - received d))]]"
    unfolding fl using exported_totals[of d its] by (simp_all add: b)
  show "\<exists>d its. generate pf f = Inr (d, its) \<and> pf ''0'' = Some (received d) \<and>
         total_amount d = foldl (+) 0 (map (\<lambda>it. quantity it * price it) its) \<and>
         cells (excel_sheet fl) (10 + length its, 4) = Some (Num (total_amount d)) \<and>
         cells (excel_sheet fl) (11 + length its, 4) = Some (Num (received d)) \<and>
         cells (excel_sheet fl) (12 + length its, 4)
           = Some (Num (total_amount d - received d)) \<and>
         pdf_story fl ! 9 =
           Table [[Val (Str []), Val (Str []), Val (Str (zh_total @ '':'')),
                   Val (Num (total_amount d))],
                  [Val (Str []), Val (Str []), Val (Str (zh_received @ '':'')),
                   Val (Num (received d))],
                  [Val (Str []), Val (Str []), Val (Str (zh_balance @ '':'')),
                   Val (Num (total_amount d - received d))]]"
    using g r t x by blast
next
  assume "worker_create_files L pf fmt pystr f = Inr wl"
  then obtain d its where g: "generate pf f = Inr (d, its)"
    and wl: "wl = worker_exported fmt pystr d its"
    unfolding worker_create_files_Inr by blast
  have r: "pf ''0'' = Some (received d)"
    using generate_items(5)[OF g] received_missing[of f, OF assms] by simp
  have t: "total_amount d = foldl (+) 0 (map (\<lambda>it. quantity it * price it) its)"
    by (rule generate_items(3)[OF g])
  have x: "cells (excel_sheet wl) (9 + length its, 4) = Some (Str (fmt (total_amount d)))"
    "cells (excel_sheet wl) (10 + length its, 4)
           = Some (Str (''('' @ fmt (received d) @ '')''))"
    "cells (excel_sheet wl) (11 + length its, 4)
           = Some (Str (fmt (total_amount d - received d)))"
    "pdf_story wl ! 3 =
           Table [[Val (Str []), Val (Str ''TOTAL''), Val (Str (fmt (total_amount d)))],
                  [Val (Str []), Val (Str ''Received''),
                   Val (Str (''('' @ fmt (received d) @ '')''))],
                  [Val (Str []), Val (Str ''Balance''), Val (Str (fmt (total_amount d - received d)))]]"
    unfolding wl using worker_exported_totals[of fmt pystr d its] by simp_all
  show "\<exists>d its. generate pf f = Inr (d, its) \<and> pf ''0'' = Some (received d) \<and>
         total_amount d = foldl (+) 0 (map (\<lambda>it. quantity it * price it) its) \<and>
         cells (excel_sheet wl) (9 + length its, 4) = Some (Str (fmt (total_amount d))) \<and>
         cells (excel_sheet wl) (10 + length its, 4)
           = Some (Str (''('' @ fmt (received d) @ '')'')) \<and>
         cells (excel_sheet wl) (11 + length its, 4)
           = Some (Str (fmt (total_amount d - received d))) \<and>
         pdf_story wl ! 3 =
           Table [[Val (Str []), Val (Str ''TOTAL''), Val (Str (fmt (total_amount d)))],
                  [Val (Str []), Val (Str ''Received''),
                   Val (Str (''('' @ fmt (received d) @ '')''))],
                  [Val (Str []), Val (Str ''Balance''), Val (Str (fmt (total_amount d - received d)))]]"
    using g r t x by blast
next
  assume a: "pf ''0'' = Some z \<and>
    list_all (\<lambda>k. f k \<noteq> [])
      [''company_name'', ''company_address'', ''company_phone'', ''company_email'',
       ''quotation_no'', ''date'', ''client_name'', ''client_address''] \<and>
    list_all (row_parses pf (f ''quantity[]'') (f ''price[]''))
      (named_rows (f ''item_name[]''))"
  have "pf (py_or (form_get f ''received'' ''0'') ''0'') = Some z"
    using a received_missing[of f, OF assms] by simp
  then obtain d its where g: "generate pf f = Inr (d, its)" and r: "received d = z"
    using generate_answers[of pf f z] a by blast
  show "\<exists>d its. generate pf f = Inr (d, its) \<and> received d = z \<and>
         create_files L pf f = checked L (exported d its) \<and>
         worker_create_files L pf fmt pystr f
           = checked L (worker_exported fmt pystr d its)"
    using g r by (auto simp: create_files_refines worker_create_files_refines)
qed

lemma generate_no_received:
  "generate decimal (widget_form(''received'' := [])) =
     Inr (widget_data\<lparr>received := 0, balance := 45\<rparr>, widget_items)"
  by (simp add: generate_def and_then_def form_getitem_def form_get_def py_or_def float_def
      getlist_def generate_body_def getitem_def Let_def widget_form_def company_form_def
      decimal_examples widget_data_def widget_items_def)

lemma generate_zero_received:
  "generate decimal (widget_form(''received'' := [''0''])) =
     Inr (widget_data\<lparr>received := 0, balance := 45\<rparr>, widget_items)"
  by (simp add: generate_def and_then_def form_getitem_def form_get_def py_or_def float_def
      getlist_def generate_body_def getitem_def Let_def widget_form_def company_form_def
      decimal_examples widget_data_def widget_items_def)

lemma no_received_files:
  "checked plain_libs (exported (widget_data\<lparr>received := 0, balance := 45\<rparr>) widget_items)
     = Inr (exported (widget_data\<lparr>received := 0, balance := 45\<rparr>) widget_items)"
  unfolding checked_Inr_iff
  by (simp add: exported_def written_excel_workbook paragraphs_pdf_elements plain zh
      widget_data_def widget_items_def)

lemma no_received_worker_files:
  "checked plain_libs
     (worker_exported two_decimals float_str (widget_data\<lparr>received := 0, balance := 45\<rparr>)
        widget_items)
     = Inr (worker_exported two_decimals float_str
              (widget_data\<lparr>received := 0, balance := 45\<rparr>) widget_items)"
  unfolding checked_Inr_iff
  by (simp add: worker_exported_def written_worker_excel written_worker_excel_head
      paragraphs_worker_pdf plain worker_row_def str_def two_decimals_def float_str_def
      widget_data_def widget_items_def)

lemma widget_form_rows:
  "list_all (\<lambda>k. (widget_form(''received'' := [])) k \<noteq> [])
      [''company_name'', ''company_address'', ''company_phone'', ''company_email'',
       ''quotation_no'', ''date'', ''client_name'', ''client_address'']"
  "list_all (row_parses decimal ((widget_form(''received'' := [])) ''quantity[]'')
               ((widget_form(''received'' := [])) ''price[]''))
      (named_rows ((widget_form(''received'' := [])) ''item_name[]''))"
  by (simp_all add: widget_form_def company_form_def named_rows_def row_parses_def
      decimal_examples upt_rec)

theorem missing_received_is_zero_witness:
  "(widget_form(''received'' := [])) ''received'' = [] \<and>
   hd ((widget_form(''received'' := [[]])) ''received'') = [] \<and>
   decimal ''0'' = Some 0 \<and>
   generate decimal (widget_form(''received'' := []))
     = Inr (widget_data\<lparr>received := 0, balance := 45\<rparr>, widget_items) \<and>
   generate decimal (widget_form(''received'' := [[]]))
     = Inr (widget_data\<lparr>received := 0, balance := 45\<rparr>, widget_items) \<and>
   (\<exists>fl. create_files plain_libs decimal (widget_form(''received'' := [])) = Inr fl \<and>
      cells (excel_sheet fl) (12, 4) = Some (Num 45) \<and>
      cells (excel_sheet fl) (13, 4) = Some (Num 0) \<and>
      cells (excel_sheet fl) (14, 4) = Some (Num 45) \<and>
      pdf_story fl ! 9 =
        Table [[Val (Str []), Val (Str []), Val (Str (zh_total @ '':'')), Val (Num 45)],
               [Val (Str []), Val (Str []), Val (Str (zh_received @ '':'')), Val (Num 0)],
               [Val (Str []), Val (Str []), Val (Str (zh_balance @ '':'')), Val (Num 45)]]) \<and>
   (\<exists>wl. worker_create_files plain_libs decimal two_decimals float_str
            (widget_form(''received'' := [[]])) = Inr wl \<and>
      cells (excel_sheet wl) (11, 4) = Some (Str ''45.00'') \<and>
      cells (excel_sheet wl) (12, 4) = Some (Str ''(0.00)'') \<and>
      cells (excel_sheet wl) (13, 4) = Some (Str ''45.00'') \<and>
      pdf_story wl ! 3 =
        Table [[Val (Str []), Val (Str ''TOTAL''), Val (Str ''45.00'')],
               [Val (Str []), Val (Str ''Received''), Val (Str ''(0.00)'')],
               [Val (Str []), Val (Str ''Balance''), Val (Str ''45.00'')]])"
proof -
  let ?d = "widget_data\<lparr>received := 0, balance := 45\<rparr>"
  have h1: "(widget_form(''received'' := [])) ''received'' = [] \<or>
            hd ((widget_form(''received'' := [])) ''received'') = []"
    and h2: "(widget_form(''received'' := [[]])) ''received'' = [] \<or>
            hd ((widget_form(''received'' := [[]])) ''received'') = []"
    by simp_all
  note t1 = missing_received_is_zero[where L = plain_libs and pf = decimal
      and fmt = two_decimals and pystr = float_str and f = "widget_form(''received'' := [])",
      OF h1]
  note t2 = missing_received_is_zero[where L = plain_libs and pf = decimal
      and fmt = two_decimals and pystr = float_str and f = "widget_form(''received'' := [[]])",
      OF h2]
  have v: "total_amount ?d = 45" "received ?d = 0" "length widget_items = 2"
    by (simp_all add: widget_data_def widget_items_def)
  have g1: "generate decimal (widget_form(''received'' := [])) = Inr (?d, widget_items)"
    using t1[THEN conjunct1] by (simp add: generate_zero_received)
  have g2: "generate decimal (widget_form(''received'' := [[]])) = Inr (?d, widget_items)"
    using t2[THEN conjunct1] by (simp add: generate_zero_received)
  have z: "decimal ''0'' = Some 0"
    using t1[where d' = ?d and its' = widget_items, THEN conjunct2, THEN conjunct2,
        THEN conjunct2, THEN conjunct1, rule_format, OF g1]
    by (simp add: v)
  have c1: "create_files plain_libs decimal (widget_form(''received'' := []))
              = Inr (exported ?d widget_items)"
    using t1[where z = 0, THEN conjunct2, THEN conjunct2, THEN conjunct2, THEN conjunct2,
        THEN conjunct2, THEN conjunct2, rule_format, OF conjI[OF z conjI[OF widget_form_rows]]]
    by (auto simp: g1 no_received_files)
  have w2: "worker_create_files plain_libs decimal two_decimals float_str
              (widget_form(''received'' := [[]]))
              = Inr (worker_exported two_decimals float_str ?d widget_items)"
    using t2[THEN conjunct2, THEN conjunct2, THEN conjunct1]
    by (simp add: worker_create_files_refines generate_zero_received no_received_worker_files)
  have a: "cells (excel_sheet (exported ?d widget_items)) (12, 4) = Some (Num 45) \<and>
      cells (excel_sheet (exported ?d widget_items)) (13, 4) = Some (Num 0) \<and>
      cells (excel_sheet (exported ?d widget_items)) (14, 4) = Some (Num 45) \<and>
      pdf_story (exported ?d widget_items) ! 9 =
        Table [[Val (Str []), Val (Str []), Val (Str (zh_total @ '':'')), Val (Num 45)],
               [Val (Str []), Val (Str []), Val (Str (zh_received @ '':'')), Val (Num 0)],
               [Val (Str []), Val (Str []), Val (Str (zh_balance @ '':'')), Val (Num 45)]]"
    using t1[THEN conjunct2, THEN conjunct2, THEN conjunct2, THEN conjunct2, THEN conjunct1,
        rule_format, OF c1]
    by (auto simp: g1 v)
  have b: "cells (excel_sheet (worker_exported two_decimals float_str ?d widget_items))
        (11, 4) = Some (Str ''45.00'') \<and>
      cells (excel_sheet (worker_exported two_decimals float_str ?d widget_items))
        (12, 4) = Some (Str ''(0.00)'') \<and>
      cells (excel_sheet (worker_exported two_decimals float_str ?d widget_items))
        (13, 4) = Some (Str ''45.00'') \<and>
      pdf_story (worker_exported two_decimals float_str ?d widget_items) ! 3 =
        Table [[Val (Str []), Val (Str ''TOTAL''), Val (Str ''45.00'')],
               [Val (Str []), Val (Str ''Received''), Val (Str ''(0.00)'')],
               [Val (Str []), Val (Str ''Balance''), Val (Str ''45.00'')]]"
    using t2[THEN conjunct2, THEN conjunct2, THEN conjunct2, THEN conjunct2, THEN conjunct2,
        THEN conjunct1, rule_format, OF w2]
    by (auto simp: g2 v two_decimals_def)
  show ?thesis
    using a b c1 w2 g1 g2 z by simp
qed

section \<open>The record store, proved\<close>

lemma select_by_id_Some: "select_by_id db i = Some q \<Longrightarrow> q \<in> set db \<and> q_id q = i"
  by (auto simp: select_by_id_def find_Some_iff)

lemma select_by_id_None_iff: "select_by_id db i = None \<longleftrightarrow> i \<notin> q_id ` set db"
  by (auto simp: select_by_id_def find_None_iff)

lemma select_by_id_append:
  "select_by_id (db @ [q]) i =
     (case select_by_id db i of Some r \<Rightarrow> Some r | None \<Rightarrow> if q_id q = i then Some q else None)"
  by (induction db) (simp_all add: select_by_id_def)

lemma q_id_assign_fields [simp]: "q_id (assign_fields data' js q) = q_id q"
  by (simp add: assign_fields_def)

lemma q_id_Quotation [simp]: "q_id (Quotation i) = i"
  by (simp add: Quotation_def)

lemma map_q_id_commit_update:
  "map q_id (commit_update db q) = map q_id db"
  by (induction db) (simp_all add: commit_update_def)

lemma select_by_id_commit_update:
  "select_by_id (commit_update db q) j =
     (if j = q_id q then (case select_by_id db j of None \<Rightarrow> None | Some _ \<Rightarrow> Some q)
      else select_by_id db j)"
  by (induction db) (auto simp: commit_update_def select_by_id_def)

lemma commit_update_in_place:
  assumes "distinct (map q_id db)" and "k < length db" and "q_id (db ! k) = q_id q"
  shows "commit_update db q = db[k := q]"
proof (rule nth_equalityI)
  show "length (commit_update db q) = length (db[k := q])"
    by (simp add: commit_update_def)
next
  fix j assume "j < length (commit_update db q)"
  then have j: "j < length db" by (simp add: commit_update_def)
  have "q_id (db ! j) = q_id q \<longleftrightarrow> j = k"
    using assms j nth_eq_iff_index_eq[of "map q_id db" j k] by auto
  with j assms(2) show "commit_update db q ! j = db[k := q] ! j"
    by (auto simp: commit_update_def nth_list_update)
qed



text \<open>The lookup, by the range of the id.\<close>

lemma query_get_Some:
  "query_get db i = Inr (Some q) \<Longrightarrow> q \<in> set db \<and> q_id q = i \<and> sqlite_integer i"
  using select_by_id_Some[of db i q] by (auto simp: query_get_def split: if_splits)

lemma query_get_in_range: "sqlite_integer i \<Longrightarrow> query_get db i = Inr (select_by_id db i)"
  by (simp add: query_get_def)


lemma get_quotation_commit_update_other:
  "j \<noteq> q_id q \<Longrightarrow> get_quotation (commit_update db q) j = get_quotation db j"
  by (simp add: get_quotation_def query_get_def select_by_id_commit_update)


lemma save_create:
  "\<not> truthy (b_id data') \<Longrightarrow>
   save_quotation next_id dumps db data' =
     (db @ [assign_fields data' (dumps (case b_items data' of None \<Rightarrow> JList [] | Some v \<Rightarrow> v))
              (Quotation (next_id db))],
      Inr (next_id db))"
  by (simp add: save_quotation_def Let_def)

lemma save_update:
  "truthy (b_id data') \<Longrightarrow> query_get db (the (b_id data')) = Inr (Some q0) \<Longrightarrow>
   save_quotation next_id dumps db data' =
     (commit_update db
        (assign_fields data' (dumps (case b_items data' of None \<Rightarrow> JList [] | Some v \<Rightarrow> v)) q0),
      Inr (q_id q0))"
  by (simp add: save_quotation_def Let_def)

lemma save_not_found:
  "truthy (b_id data') \<Longrightarrow> query_get db (the (b_id data')) = Inr None \<Longrightarrow>
   save_quotation next_id dumps db data' = (db, Inl NotFound)"
  by (simp add: save_quotation_def Let_def)

lemma save_overflow:
  "truthy (b_id data') \<Longrightarrow> query_get db (the (b_id data')) = Inl e \<Longrightarrow>
   save_quotation next_id dumps db data' = (db, Inl e)"
  by (simp add: save_quotation_def Let_def)

lemma store_ok_positive: "store_ok db \<Longrightarrow> q \<in> set db \<Longrightarrow> 0 < q_id q"
  by (simp add: store_ok_def list_all_iff)

lemma fold_max_ge: "(m::int) \<le> fold max xs m \<and> (\<forall>x\<in>set xs. x \<le> fold max xs m)"
proof (induction xs arbitrary: m)
  case Nil
  show ?case by simp
next
  case (Cons x xs)
  from Cons.IH[of "max x m"] show ?case by auto
qed

lemma sqlite_rowid_fresh: "sqlite_rowid db \<notin> q_id ` set db"
proof (cases db)
  case Nil
  then show ?thesis by simp
next
  case (Cons r rs)
  have "\<forall>x\<in>set (map q_id db). x < sqlite_rowid db"
    using fold_max_ge[of "q_id r" "map q_id rs"] Cons by (auto simp: sqlite_rowid_def)
  then show ?thesis by auto
qed

lemma sqlite_rowid_positive: "store_ok db \<Longrightarrow> 0 < sqlite_rowid db"
proof (cases db)
  case Nil
  then show ?thesis by (simp add: sqlite_rowid_def)
next
  case (Cons r rs)
  assume "store_ok db"
  with Cons have "0 < q_id r" by (simp add: store_ok_def)
  with fold_max_ge[of "q_id r" "map q_id rs"] Cons show ?thesis
    by (simp add: sqlite_rowid_def)
qed

text \<open>
  The invariant holds of the empty table and of every table the handlers make from one
  that has it, when the database assigns a positive key that is not in use (as SQLite
  does).
\<close>

lemma store_ok_empty: "store_ok []"
  by (simp add: store_ok_def)

lemma store_ok_save:
  assumes "store_ok db" and "0 < next_id db" and "next_id db \<notin> q_id ` set db"
  shows "store_ok (fst (save_quotation next_id dumps db data'))"
proof (cases "truthy (b_id data')")
  case False
  with assms show ?thesis
    by (simp add: save_create store_ok_def)
next
  case True
  show ?thesis
  proof (cases "query_get db (the (b_id data'))")
    case (Inl e)
    with True assms(1) show ?thesis by (simp add: save_overflow)
  next
    case (Inr r)
    show ?thesis
    proof (cases r)
      case None
      with Inr True assms(1) show ?thesis by (simp add: save_not_found)
    next
      case (Some q0)
      with Inr have q0: "query_get db (the (b_id data')) = Inr (Some q0)" by simp
      have "list_all (\<lambda>r. 0 < q_id r) (commit_update db
          (assign_fields data' (dumps (case b_items data' of None \<Rightarrow> JList [] | Some v \<Rightarrow> v)) q0))"
        using assms(1) query_get_Some[OF q0]
        by (auto simp: store_ok_def list_all_iff commit_update_def)
      with True q0 assms(1) show ?thesis
        by (simp add: save_update store_ok_def map_q_id_commit_update)
    qed
  qed
qed

lemma store_ok_delete: "store_ok db \<Longrightarrow> store_ok (fst (delete_quotation db i))"
  by (auto simp: delete_quotation_def store_ok_def commit_delete_def list_all_iff
      distinct_map_filter split: option.splits sum.splits)

text \<open>What a saved row holds: every field of the body, the items as their JSON text.\<close>

lemma assign_fields_holds:
  "q_company_name (assign_fields data' js q) = b_company_name data'"
  "q_company_address (assign_fields data' js q) = b_company_address data'"
  "q_company_phone (assign_fields data' js q) = b_company_phone data'"
  "q_company_email (assign_fields data' js q) = b_company_email data'"
  "q_client_name (assign_fields data' js q) = b_client_name data'"
  "q_client_address (assign_fields data' js q) = b_client_address data'"
  "q_quotation_no (assign_fields data' js q) = b_quotation_no data'"
  "q_date (assign_fields data' js q) = b_date data'"
  "q_received (assign_fields data' js q) = b_received data'"
  "q_deposit_info (assign_fields data' js q) = b_deposit_info data'"
  "q_items (assign_fields data' js q) = Some js"
  by (simp_all add: assign_fields_def)

text \<open>
  Claim C4. Saving a body without an id adds one row under the key the database assigns
  (a key of its integer type that no row has) and answers with that key; the row holds
  the body's fields, the items as the JSON text of the body's items (of the empty list
  when the body has none, of \<^verbatim>\<open>null\<close> when it says \<^verbatim>\<open>null\<close>). Saving with the id of a stored
  row (on a table whose keys are unique and positive) puts the body's fields into that
  row at its place, under the same key, and answers with the id: the table has as many
  rows as before, with the same keys, and every other row is as it was.
\<close>

theorem save_creates_or_overwrites:
  "(b_id data' = None \<longrightarrow> next_id db \<notin> q_id ` set db \<longrightarrow> sqlite_integer (next_id db) \<longrightarrow>
      (\<exists>q. save_quotation next_id dumps db data' = (db @ [q], Inr (next_id db)) \<and>
           q_id q = next_id db \<and>
           q_company_name q = b_company_name data' \<and>
           q_company_address q = b_company_address data' \<and>
           q_company_phone q = b_company_phone data' \<and>
           q_company_email q = b_company_email data' \<and>
           q_client_name q = b_client_name data' \<and>
           q_client_address q = b_client_address data' \<and>
           q_quotation_no q = b_quotation_no data' \<and>
           q_date q = b_date data' \<and>
           q_received q = b_received data' \<and>
           q_deposit_info q = b_deposit_info data' \<and>
           q_items q = Some (dumps (case b_items data' of None \<Rightarrow> JList [] | Some v \<Rightarrow> v)) \<and>
           get_quotation db (next_id db) = Inl NotFound \<and>
           get_quotation (db @ [q]) (next_id db) = Inr q \<and>
           length (db @ [q]) = Suc (length db))) \<and>
   (b_id data' = Some i \<longrightarrow> store_ok db \<longrightarrow> query_get db i = Inr (Some q0) \<longrightarrow>
      (\<exists>q db' k. save_quotation next_id dumps db data' = (db', Inr i) \<and>
           q_id q = i \<and>
           q_company_name q = b_company_name data' \<and>
           q_company_address q = b_company_address data' \<and>
           q_company_phone q = b_company_phone data' \<and>
           q_company_email q = b_company_email data' \<and>
           q_client_name q = b_client_name data' \<and>
           q_client_address q = b_client_address data' \<and>
           q_quotation_no q = b_quotation_no data' \<and>
           q_date q = b_date data' \<and>
           q_received q = b_received data' \<and>
           q_deposit_info q = b_deposit_info data' \<and>
           q_items q = Some (dumps (case b_items data' of None \<Rightarrow> JList [] | Some v \<Rightarrow> v)) \<and>
           k < length db \<and> db ! k = q0 \<and> db' = db[k := q] \<and>
           length db' = length db \<and> map q_id db' = map q_id db \<and>
           get_quotation db' i = Inr q \<and>
           (\<forall>j. j \<noteq> i \<longrightarrow> get_quotation db' j = get_quotation db j)))"
proof (intro conjI impI)
  assume none: "b_id data' = None" and fresh: "next_id db \<notin> q_id ` set db"
    and rng: "sqlite_integer (next_id db)"
  let ?q = "assign_fields data' (dumps (case b_items data' of None \<Rightarrow> JList [] | Some v \<Rightarrow> v))
              (Quotation (next_id db))"
  have id: "q_id ?q = next_id db" by simp
  have s: "save_quotation next_id dumps db data' = (db @ [?q], Inr (next_id db))"
    using none by (simp add: save_create truthy_def)
  have sel: "select_by_id db (next_id db) = None"
    using fresh by (simp add: select_by_id_None_iff)
  have g1: "get_quotation db (next_id db) = Inl NotFound"
    using sel rng by (simp add: get_quotation_def query_get_in_range)
  have g2: "get_quotation (db @ [?q]) (next_id db) = Inr ?q"
    using sel rng by (simp add: get_quotation_def query_get_in_range select_by_id_append)
  show "\<exists>q. save_quotation next_id dumps db data' = (db @ [q], Inr (next_id db)) \<and>
           q_id q = next_id db \<and>
           q_company_name q = b_company_name data' \<and>
           q_company_address q = b_company_address data' \<and>
           q_company_phone q = b_company_phone data' \<and>
           q_company_email q = b_company_email data' \<and>
           q_client_name q = b_client_name data' \<and>
           q_client_address q = b_client_address data' \<and>
           q_quotation_no q = b_quotation_no data' \<and>
           q_date q = b_date data' \<and>
           q_received q = b_received data' \<and>
           q_deposit_info q = b_deposit_info data' \<and>
           q_items q = Some (dumps (case b_items data' of None \<Rightarrow> JList [] | Some v \<Rightarrow> v)) \<and>
           get_quotation db (next_id db) = Inl NotFound \<and>
           get_quotation (db @ [q]) (next_id db) = Inr q \<and>
           length (db @ [q]) = Suc (length db)"
    using s id g1 g2 by (intro exI[of _ ?q]) (simp add: assign_fields_holds)
next
  assume some: "b_id data' = Some i" and ok: "store_ok db"
    and q0: "query_get db i = Inr (Some q0)"
  let ?q = "assign_fields data' (dumps (case b_items data' of None \<Rightarrow> JList [] | Some v \<Rightarrow> v)) q0"
  from query_get_Some[OF q0] have mem: "q0 \<in> set db" and id0: "q_id q0 = i"
    and rng: "sqlite_integer i" by simp_all
  from q0 rng have sel: "select_by_id db i = Some q0" by (simp add: query_get_in_range)
  from store_ok_positive[OF ok mem] id0 have "i \<noteq> 0" by simp
  with some have t: "truthy (b_id data')" by (simp add: truthy_def)
  from mem obtain k where k: "k < length db" "db ! k = q0"
    by (auto simp: in_set_conv_nth)
  have d: "distinct (map q_id db)" using ok by (simp add: store_ok_def)
  have upd: "commit_update db ?q = db[k := ?q]"
    using commit_update_in_place[OF d k(1), of ?q] k(2) by simp
  have s: "save_quotation next_id dumps db data' = (commit_update db ?q, Inr i)"
    using save_update[OF t, of db q0 next_id dumps] some q0 id0 by simp
  have g: "get_quotation (commit_update db ?q) i = Inr ?q"
    using sel id0 rng by (simp add: get_quotation_def query_get_in_range select_by_id_commit_update)
  have other: "\<forall>j. j \<noteq> i \<longrightarrow> get_quotation (commit_update db ?q) j = get_quotation db j"
    using id0 get_quotation_commit_update_other[of _ ?q db] by simp
  show "\<exists>q db' k. save_quotation next_id dumps db data' = (db', Inr i) \<and>
           q_id q = i \<and>
           q_company_name q = b_company_name data' \<and>
           q_company_address q = b_company_address data' \<and>
           q_company_phone q = b_company_phone data' \<and>
           q_company_email q = b_company_email data' \<and>
           q_client_name q = b_client_name data' \<and>
           q_client_address q = b_client_address data' \<and>
           q_quotation_no q = b_quotation_no data' \<and>
           q_date q = b_date data' \<and>
           q_received q = b_received data' \<and>
           q_deposit_info q = b_deposit_info data' \<and>
           q_items q = Some (dumps (case b_items data' of None \<Rightarrow> JList [] | Some v \<Rightarrow> v)) \<and>
           k < length db \<and> db ! k = q0 \<and> db' = db[k := q] \<and>
           length db' = length db \<and> map q_id db' = map q_id db \<and>
           get_quotation db' i = Inr q \<and>
           (\<forall>j. j \<noteq> i \<longrightarrow> get_quotation db' j = get_quotation db j)"
    using s k upd g other id0 map_q_id_commit_update[of db ?q]
    by (intro exI[of _ ?q] exI[of _ "commit_update db ?q"] exI[of _ k])
      (simp add: assign_fields_holds)
qed

lemma three_rows_facts:
  "store_ok three_rows" "sqlite_rowid three_rows = 4"
  "query_get three_rows 2 = Inr (Some (dated 2 None))"
  "query_get three_rows 7 = Inr None" "length three_rows = 3"
  "map q_id three_rows = [1, 2, 3]"
  "sqlite_integer 4" "sqlite_integer 7" "sqlite_integer 2"
  "\<not> sqlite_integer 9223372036854775808"
  by (simp_all add: three_rows_def store_ok_def sqlite_rowid_def dated_def query_get_def
      select_by_id_def sqlite_integer_def)


theorem save_creates_or_overwrites_witness:
  "b_id order_body = None \<and> sqlite_rowid three_rows \<notin> q_id ` set three_rows \<and>
   sqlite_integer (sqlite_rowid three_rows) \<and>
   (\<exists>q. save_quotation sqlite_rowid dumps_texts three_rows order_body
            = (three_rows @ [q], Inr 4) \<and>
        q_id q = 4 \<and> q_date q = Some ''2024-02-01'' \<and> q_received q = Some 20 \<and>
        q_items q = Some (dumps_texts (JList [JStr ''Widget''])) \<and>
        get_quotation (three_rows @ [q]) 4 = Inr q \<and>
        length (three_rows @ [q]) = 4) \<and>
   b_id (order_body\<lparr>b_id := Some 2, b_items := Some JNull\<rparr>) = Some 2 \<and> store_ok three_rows \<and>
   query_get three_rows 2 = Inr (Some (dated 2 None)) \<and>
   (\<exists>q db'. save_quotation sqlite_rowid dumps_texts three_rows
               (order_body\<lparr>b_id := Some 2, b_items := Some JNull\<rparr>) = (db', Inr 2) \<and>
        q_id q = 2 \<and> q_date q = Some ''2024-02-01'' \<and> q_company_name q = Some ''ACME'' \<and>
        q_items q = Some ''null'' \<and>
        db' = three_rows[1 := q] \<and> length db' = 3 \<and>
        map q_id db' = [1, 2, 3] \<and> get_quotation db' 2 = Inr q)"
proof -
  have none: "b_id order_body = None" by (simp add: order_body_def)
  have fresh: "sqlite_rowid three_rows \<notin> q_id ` set three_rows"
    by (rule sqlite_rowid_fresh)
  have rng: "sqlite_integer (sqlite_rowid three_rows)"
    by (simp add: three_rows_facts)
  have some: "b_id (order_body\<lparr>b_id := Some 2, b_items := Some JNull\<rparr>) = Some 2" by simp
  note c = save_creates_or_overwrites[where next_id = sqlite_rowid and dumps = dumps_texts
      and db = three_rows and data' = order_body, THEN conjunct1, rule_format,
      OF none fresh rng]
  note u = save_creates_or_overwrites[where next_id = sqlite_rowid and dumps = dumps_texts
      and db = three_rows and data' = "order_body\<lparr>b_id := Some 2, b_items := Some JNull\<rparr>"
      and i = 2 and ?q0.0 = "dated 2 None",
      THEN conjunct2, rule_format, OF some three_rows_facts(1) three_rows_facts(3)]
  from u obtain q db' k where u':
    "save_quotation sqlite_rowid dumps_texts three_rows
       (order_body\<lparr>b_id := Some 2, b_items := Some JNull\<rparr>) = (db', Inr 2)"
    "q_id q = 2"
    "q_date q = b_date (order_body\<lparr>b_id := Some 2, b_items := Some JNull\<rparr>)"
    "q_company_name q = b_company_name (order_body\<lparr>b_id := Some 2, b_items := Some JNull\<rparr>)"
    "q_items q = Some (dumps_texts
       (case b_items (order_body\<lparr>b_id := Some 2, b_items := Some JNull\<rparr>) of
          None \<Rightarrow> JList [] | Some v \<Rightarrow> v))"
    "k < length three_rows" "three_rows ! k = dated 2 None"
    "db' = three_rows[k := q]" "length db' = length three_rows"
    "map q_id db' = map q_id three_rows" "get_quotation db' 2 = Inr q"
    by blast
  have "k = 1"
    using u'(6,7) by (cases k; cases "k - 1"; cases "k - 2")
      (auto simp: three_rows_def dated_def Quotation_def)
  with u' have "\<exists>q db'. save_quotation sqlite_rowid dumps_texts three_rows
               (order_body\<lparr>b_id := Some 2, b_items := Some JNull\<rparr>) = (db', Inr 2) \<and>
        q_id q = 2 \<and> q_date q = Some ''2024-02-01'' \<and> q_company_name q = Some ''ACME'' \<and>
        q_items q = Some ''null'' \<and>
        db' = three_rows[1 := q] \<and> length db' = 3 \<and>
        map q_id db' = [1, 2, 3] \<and> get_quotation db' 2 = Inr q"
    by (auto simp: three_rows_facts order_body_def dumps_texts_def)
  moreover from c have "\<exists>q. save_quotation sqlite_rowid dumps_texts three_rows order_body
            = (three_rows @ [q], Inr 4) \<and>
        q_id q = 4 \<and> q_date q = Some ''2024-02-01'' \<and> q_received q = Some 20 \<and>
        q_items q = Some (dumps_texts (JList [JStr ''Widget''])) \<and>
        get_quotation (three_rows @ [q]) 4 = Inr q \<and>
        length (three_rows @ [q]) = 4"
    by (auto simp: three_rows_facts order_body_def)
  ultimately show ?thesis
    using none fresh rng some three_rows_facts(1,3) by blast
qed

lemma mset_get_quotations: "mset (get_quotations db) = mset db"
  by (simp add: get_quotations_def)


lemma get_quotations_descending:
  "sorted_wrt (\<lambda>a b. q_date b \<le> q_date a) (get_quotations db)"
proof -
  have "sorted (map q_date (sort_key q_date (rev db)))"
    by (rule sorted_sort_key)
  then have "sorted_wrt (\<lambda>a b. q_date a \<le> q_date b) (sort_key q_date (rev db))"
    by (simp add: sorted_map)
  then show ?thesis
    by (simp add: get_quotations_def sorted_wrt_rev)
qed




text \<open>
  Claim C6. The listing holds every stored row, once each, and is ordered by date
  descending: of two adjacent rows of the listing, the first one's date is greater than
  or equal to the second's. The dates are texts, so the order is the one of texts, byte
  by byte, with an unset date below every text; it is a calendar order only for dates
  written year first with fixed widths.
\<close>

theorem listing_sorted_by_date_descending:
  "mset (get_quotations db) = mset db \<and>
   (\<forall>k. Suc k < length (get_quotations db) \<longrightarrow>
      q_date (get_quotations db ! Suc k) \<le> q_date (get_quotations db ! k))"
proof (intro conjI allI impI)
  show "mset (get_quotations db) = mset db" by (rule mset_get_quotations)
next
  fix k assume "Suc k < length (get_quotations db)"
  then show "q_date (get_quotations db ! Suc k) \<le> q_date (get_quotations db ! k)"
    using sorted_wrt_nth_less[OF get_quotations_descending, of k "Suc k" db] by simp
qed

lemma three_rows_listing:
  "get_quotations three_rows =
     [dated 3 (Some ''2024-03-01''), dated 1 (Some ''2024-01-02''), dated 2 None]"
  by (simp add: get_quotations_def three_rows_def dated_def Quotation_def)

theorem listing_sorted_by_date_descending_witness:
  "get_quotations three_rows =
     [dated 3 (Some ''2024-03-01''), dated 1 (Some ''2024-01-02''), dated 2 None] \<and>
   mset (get_quotations three_rows) = mset three_rows \<and>
   Suc 0 < length (get_quotations three_rows) \<and>
   q_date (get_quotations three_rows ! Suc 0) \<le> q_date (get_quotations three_rows ! 0) \<and>
   Suc 1 < length (get_quotations three_rows) \<and>
   q_date (get_quotations three_rows ! Suc 1) \<le> q_date (get_quotations three_rows ! 1)"
proof -
  have l: "Suc 0 < length (get_quotations three_rows)" "Suc 1 < length (get_quotations three_rows)"
    by (simp_all add: three_rows_listing)
  note t = listing_sorted_by_date_descending[of three_rows]
  from t l three_rows_listing show ?thesis by blast
qed

text \<open>
  Claim C8. A save whose body has id 0 does what the save of the same body without an id
  does: it adds a new row under an assigned key and looks no row up, whatever rows the
  table has. A row is added exactly when the id is absent, null or 0; the update branch is
  for the ids that are integers other than 0.
\<close>

theorem zero_id_is_no_id:
  "(b_id data' = Some 0 \<longrightarrow>
      save_quotation next_id dumps db data'
        = save_quotation next_id dumps db (data'\<lparr>b_id := None\<rparr>) \<and>
      save_quotation next_id dumps db data'
        = (db @ [assign_fields data'
                   (dumps (case b_items data' of None \<Rightarrow> JList [] | Some v \<Rightarrow> v))
                   (Quotation (next_id db))],
           Inr (next_id db))) \<and>
   (length (fst (save_quotation next_id dumps db data')) = Suc (length db)
      \<longleftrightarrow> b_id data' = None \<or> b_id data' = Some 0) \<and>
   (truthy (b_id data') \<longleftrightarrow> (\<exists>i. b_id data' = Some i \<and> i \<noteq> 0))"
proof (intro conjI impI)
  assume z: "b_id data' = Some 0"
  then have nt: "\<not> truthy (b_id data')" by (simp add: truthy_def)
  have nt': "\<not> truthy (b_id (data'\<lparr>b_id := None\<rparr>))" by (simp add: truthy_def)
  show "save_quotation next_id dumps db data'
        = save_quotation next_id dumps db (data'\<lparr>b_id := None\<rparr>)"
    by (simp add: save_create[OF nt] save_create[OF nt'] assign_fields_def)
  show "save_quotation next_id dumps db data'
        = (db @ [assign_fields data'
                   (dumps (case b_items data' of None \<Rightarrow> JList [] | Some v \<Rightarrow> v))
                   (Quotation (next_id db))],
           Inr (next_id db))"
    by (rule save_create[OF nt])
next
  show t: "truthy (b_id data') \<longleftrightarrow> (\<exists>i. b_id data' = Some i \<and> i \<noteq> 0)"
    by (cases "b_id data'") (simp_all add: truthy_def)
  show "length (fst (save_quotation next_id dumps db data')) = Suc (length db)
      \<longleftrightarrow> b_id data' = None \<or> b_id data' = Some 0"
  proof (cases "truthy (b_id data')")
    case False
    then show ?thesis using t by (cases "b_id data'") (simp_all add: save_create)
  next
    case True
    have "length (fst (save_quotation next_id dumps db data')) = length db"
    proof (cases "query_get db (the (b_id data'))")
      case (Inl e)
      with True show ?thesis by (simp add: save_overflow)
    next
      case (Inr r)
      with True show ?thesis
        by (cases r) (simp_all add: save_not_found save_update commit_update_def)
    qed
    with True t show ?thesis by auto
  qed
qed

lemma zero_row_facts:
  "sqlite_rowid [dated 0 None] = 1"
  "query_get [dated 0 None] 0 = Inr (Some (dated 0 None))"
  by (simp_all add: sqlite_rowid_def dated_def query_get_def select_by_id_def
      sqlite_integer_def)

theorem zero_id_is_no_id_witness:
  "b_id (order_body\<lparr>b_id := Some 0\<rparr>) = Some 0 \<and>
   query_get [dated 0 None] 0 = Inr (Some (dated 0 None)) \<and>
   save_quotation sqlite_rowid dumps_texts [dated 0 None] (order_body\<lparr>b_id := Some 0\<rparr>)
     = save_quotation sqlite_rowid dumps_texts [dated 0 None] order_body \<and>
   save_quotation sqlite_rowid dumps_texts [dated 0 None] (order_body\<lparr>b_id := Some 0\<rparr>)
     = ([dated 0 None,
         assign_fields order_body (dumps_texts (JList [JStr ''Widget''])) (Quotation 1)],
        Inr 1)"
proof -
  have z: "b_id (order_body\<lparr>b_id := Some 0\<rparr>) = Some 0" by simp
  have n: "order_body\<lparr>b_id := None\<rparr> = order_body"
    by (simp add: order_body_def)
  have i: "b_items order_body = Some (JList [JStr ''Widget''])"
    by (simp add: order_body_def)
  have a: "assign_fields (order_body\<lparr>b_id := Some 0\<rparr>) js q = assign_fields order_body js q"
    for js and q :: "real quotation"
    by (simp add: assign_fields_def)
  note t = zero_id_is_no_id[where data' = "order_body\<lparr>b_id := Some 0\<rparr>"
      and next_id = sqlite_rowid and dumps = dumps_texts and db = "[dated 0 None]",
      THEN conjunct1, rule_format, OF z]
  from t show ?thesis
    by (auto simp: n i a zero_row_facts)
qed




section \<open>The formatting of numbers\<close>

lemma fold_row_cells:
  "fold (\<lambda>(c, v) m. m((r, c) \<mapsto> v)) (zip [a..<a + length vs] vs) m (r', c') =
     (if r' = r \<and> a \<le> c' \<and> c' < a + length vs then Some (vs ! (c' - a)) else m (r', c'))"
proof (induction vs arbitrary: a m)
  case Nil
  show ?case by auto
next
  case (Cons v vs)
  have "[a..<a + length (v # vs)] = a # [Suc a..<Suc a + length vs]"
    by (simp add: upt_conv_Cons del: upt_Suc)
  then have z: "zip [a..<a + length (v # vs)] (v # vs) = (a, v) # zip [Suc a..<Suc a + length vs] vs"
    by (simp del: upt_Suc)
  show ?case
    unfolding z using Cons.IH[of "Suc a" "m((r, a) \<mapsto> v)"]
    by (auto simp: nth_Cons' Suc_diff_le)
qed

lemma cells_ws_append:
  "cells (ws_append vs ws) (r, c) =
     (if r = Suc (current_row ws) \<and> 1 \<le> c \<and> c \<le> length vs then Some (vs ! (c - 1))
      else cells ws (r, c))"
  using fold_row_cells[of "Suc (current_row ws)" 1 vs "cells ws" r c]
  by (auto simp: ws_append_def Let_def)

lemma pricey_preview: "generate decimal pricey_form = Inr (pricey_data, pricey_items)"
  by (simp add: generate_def and_then_def form_getitem_def form_get_def py_or_def float_def
      getlist_def generate_body_def getitem_def Let_def pricey_form_def company_form_def
      decimal_examples pricey_data_def pricey_items_def)

lemma pricey_app_sheet:
  "cells (excel_sheet (exported pricey_data pricey_items)) (10, 3) = Some (Num 1234.5)"
  "cells (excel_sheet (exported pricey_data pricey_items)) (10, 4) = Some (Num 2469)"
  by (simp_all add: exported_def excel_workbook_def Let_def split_beta cells_ws_cell
      excel_item_row_def pricey_items_def)

lemma pricey_app_pdf:
  "pdf_story (exported pricey_data pricey_items) ! 8 =
     Table [[Val (Str zh_item), Val (Str zh_quantity), Val (Str zh_price), Val (Str zh_amount)],
            [Val (Str ''Widget''), Val (Num 2), Val (Num 1234.5), Val (Num 2469)]]"
  by (simp add: exported_def pdf_elements_def Let_def pricey_items_def)

lemma pricey_worker_sheet:
  "cells (excel_sheet (worker_exported fmt pystr pricey_data pricey_items)) (9, 3)
     = Some (Str (fmt 1234.5))"
  "cells (excel_sheet (worker_exported fmt pystr pricey_data pricey_items)) (9, 4)
     = Some (Str (fmt 2469))"
proof -
  note h = worker_excel_head_counters[THEN conjunct1]
  note t = worker_excel_head_counters[THEN conjunct2]
  show "cells (excel_sheet (worker_exported fmt pystr pricey_data pricey_items)) (9, 3)
     = Some (Str (fmt 1234.5))"
    by (simp add: worker_exported_def worker_excel_def Let_def cells_ws_cell cells_ws_append
        max_row_def counters h t worker_row_def pricey_items_def)
  show "cells (excel_sheet (worker_exported fmt pystr pricey_data pricey_items)) (9, 4)
     = Some (Str (fmt 2469))"
    by (simp add: worker_exported_def worker_excel_def Let_def cells_ws_cell cells_ws_append
        max_row_def counters h t worker_row_def pricey_items_def)
qed

lemma pricey_worker_pdf:
  "pdf_story (worker_exported fmt pystr pricey_data pricey_items) ! 2 =
     Table [[Par ''Items'' ''SimSunBold'', Par ''Units'' ''SimSunBold'',
             Par ''Cost Per Unit'' ''SimSunBold'', Par ''Amount'' ''SimSunBold''],
            [Par ''Widget'' ''SimSun'', Par (pystr 2) ''SimSun'',
             Par (fmt 1234.5) ''SimSun'', Par (fmt 2469) ''SimSun'']]"
  by (simp add: worker_exported_def worker_pdf_items worker_row_def str_def pricey_items_def)

lemma pricey_files:
  "checked plain_libs (exported pricey_data pricey_items)
     = Inr (exported pricey_data pricey_items)"
  unfolding checked_Inr_iff
  by (simp add: exported_def written_excel_workbook paragraphs_pdf_elements plain zh
      pricey_data_def pricey_items_def)

lemma pricey_worker_files:
  "checked plain_libs (worker_exported two_decimals float_str pricey_data pricey_items)
     = Inr (worker_exported two_decimals float_str pricey_data pricey_items)"
  unfolding checked_Inr_iff
  by (simp add: worker_exported_def written_worker_excel written_worker_excel_head
      paragraphs_worker_pdf plain worker_row_def str_def two_decimals_def float_str_def
      pricey_data_def pricey_items_def)

text \<open>
  Claim C7. Both exporters are to show the item price, the item amount, the total, the
  received amount and the balance with two decimals and thousands separators, the same in
  both formats. The second entry point does: each of the five values goes through the one
  format \<open>fmt\<close> into the sheet and into the PDF, whatever the libraries then accept, and
  with the format \<^verbatim>\<open>,.2f\<close> its files hold 1,234.50 and 2,469.00. The exporters of
  \<^verbatim>\<open>app.py\<close> do not: they write the numbers themselves, unformatted, into both
  documents. For one item (Widget, 2, 1234.5) and 1000 received:
\<close>

theorem app_exporters_write_unformatted_numbers:
  "(\<exists>fl. create_files plain_libs decimal pricey_form = Inr fl \<and>
      cells (excel_sheet fl) (10, 3) = Some (Num 1234.5) \<and>
      cells (excel_sheet fl) (10, 4) = Some (Num 2469) \<and>
      cells (excel_sheet fl) (11, 4) = Some (Num 2469) \<and>
      cells (excel_sheet fl) (12, 4) = Some (Num 1000) \<and>
      cells (excel_sheet fl) (13, 4) = Some (Num 1469) \<and>
      pdf_story fl ! 8 =
        Table [[Val (Str zh_item), Val (Str zh_quantity), Val (Str zh_price),
                Val (Str zh_amount)],
               [Val (Str ''Widget''), Val (Num 2), Val (Num 1234.5), Val (Num 2469)]] \<and>
      pdf_story fl ! 9 =
        Table [[Val (Str []), Val (Str []), Val (Str (zh_total @ '':'')), Val (Num 2469)],
               [Val (Str []), Val (Str []), Val (Str (zh_received @ '':'')), Val (Num 1000)],
               [Val (Str []), Val (Str []), Val (Str (zh_balance @ '':'')), Val (Num 1469)]]) \<and>
   (\<exists>wl. worker_create_files L decimal fmt pystr pricey_form = checked L wl \<and>
      cells (excel_sheet wl) (9, 3) = Some (Str (fmt 1234.5)) \<and>
      cells (excel_sheet wl) (9, 4) = Some (Str (fmt 2469)) \<and>
      cells (excel_sheet wl) (10, 4) = Some (Str (fmt 2469)) \<and>
      cells (excel_sheet wl) (11, 4) = Some (Str (''('' @ fmt 1000 @ '')'')) \<and>
      cells (excel_sheet wl) (12, 4) = Some (Str (fmt 1469)) \<and>
      pdf_story wl ! 2 =
        Table [[Par ''Items'' ''SimSunBold'', Par ''Units'' ''SimSunBold'',
                Par ''Cost Per Unit'' ''SimSunBold'', Par ''Amount'' ''SimSunBold''],
               [Par ''Widget'' ''SimSun'', Par (pystr 2) ''SimSun'',
                Par (fmt 1234.5) ''SimSun'', Par (fmt 2469) ''SimSun'']] \<and>
      pdf_story wl ! 3 =
        Table [[Val (Str []), Val (Str ''TOTAL''), Val (Str (fmt 2469))],
               [Val (Str []), Val (Str ''Received''), Val (Str (''('' @ fmt 1000 @ '')''))],
               [Val (Str []), Val (Str ''Balance''), Val (Str (fmt 1469))]]) \<and>
   (\<exists>wl. worker_create_files plain_libs decimal two_decimals float_str pricey_form = Inr wl \<and>
      cells (excel_sheet wl) (9, 3) = Some (Str ''1,234.50'') \<and>
      cells (excel_sheet wl) (9, 4) = Some (Str ''2,469.00'') \<and>
      cells (excel_sheet wl) (10, 4) = Some (Str ''2,469.00'') \<and>
      cells (excel_sheet wl) (11, 4) = Some (Str ''(1,000.00)'') \<and>
      cells (excel_sheet wl) (12, 4) = Some (Str ''1,469.00'') \<and>
      pdf_story wl ! 2 =
        Table [[Par ''Items'' ''SimSunBold'', Par ''Units'' ''SimSunBold'',
                Par ''Cost Per Unit'' ''SimSunBold'', Par ''Amount'' ''SimSunBold''],
               [Par ''Widget'' ''SimSun'', Par ''2.0'' ''SimSun'',
                Par ''1,234.50'' ''SimSun'', Par ''2,469.00'' ''SimSun'']] \<and>
      pdf_story wl ! 3 =
        Table [[Val (Str []), Val (Str ''TOTAL''), Val (Str ''2,469.00'')],
               [Val (Str []), Val (Str ''Received''), Val (Str ''(1,000.00)'')],
               [Val (Str []), Val (Str ''Balance''), Val (Str ''1,469.00'')]])"
proof (intro conjI)
  have l: "length pricey_items = 1"
    and d: "total_amount pricey_data = 2469" "received pricey_data = 1000"
      "balance pricey_data = 1469"
    by (simp_all add: pricey_items_def pricey_data_def)
  have c: "create_files plain_libs decimal pricey_form = Inr (exported pricey_data pricey_items)"
    by (simp add: create_files_refines pricey_preview pricey_files)
  show "\<exists>fl. create_files plain_libs decimal pricey_form = Inr fl \<and>
      cells (excel_sheet fl) (10, 3) = Some (Num 1234.5) \<and>
      cells (excel_sheet fl) (10, 4) = Some (Num 2469) \<and>
      cells (excel_sheet fl) (11, 4) = Some (Num 2469) \<and>
      cells (excel_sheet fl) (12, 4) = Some (Num 1000) \<and>
      cells (excel_sheet fl) (13, 4) = Some (Num 1469) \<and>
      pdf_story fl ! 8 =
        Table [[Val (Str zh_item), Val (Str zh_quantity), Val (Str zh_price),
                Val (Str zh_amount)],
               [Val (Str ''Widget''), Val (Num 2), Val (Num 1234.5), Val (Num 2469)]] \<and>
      pdf_story fl ! 9 =
        Table [[Val (Str []), Val (Str []), Val (Str (zh_total @ '':'')), Val (Num 2469)],
               [Val (Str []), Val (Str []), Val (Str (zh_received @ '':'')), Val (Num 1000)],
               [Val (Str []), Val (Str []), Val (Str (zh_balance @ '':'')), Val (Num 1469)]]"
    using exported_totals[of pricey_data pricey_items] pricey_app_sheet pricey_app_pdf
    by (simp add: c l d)
  have w: "worker_create_files L decimal fmt pystr pricey_form
             = checked L (worker_exported fmt pystr pricey_data pricey_items)"
    for L fmt pystr
    by (simp add: worker_create_files_refines pricey_preview)
  have b: "(2469::real) - 1000 = 1469" by simp
  have x: "cells (excel_sheet (worker_exported fmt pystr pricey_data pricey_items)) (9, 3)
        = Some (Str (fmt 1234.5)) \<and>
      cells (excel_sheet (worker_exported fmt pystr pricey_data pricey_items)) (9, 4)
        = Some (Str (fmt 2469)) \<and>
      cells (excel_sheet (worker_exported fmt pystr pricey_data pricey_items)) (10, 4)
        = Some (Str (fmt 2469)) \<and>
      cells (excel_sheet (worker_exported fmt pystr pricey_data pricey_items)) (11, 4)
        = Some (Str (''('' @ fmt 1000 @ '')'')) \<and>
      cells (excel_sheet (worker_exported fmt pystr pricey_data pricey_items)) (12, 4)
        = Some (Str (fmt 1469)) \<and>
      pdf_story (worker_exported fmt pystr pricey_data pricey_items) ! 2 =
        Table [[Par ''Items'' ''SimSunBold'', Par ''Units'' ''SimSunBold'',
                Par ''Cost Per Unit'' ''SimSunBold'', Par ''Amount'' ''SimSunBold''],
               [Par ''Widget'' ''SimSun'', Par (pystr 2) ''SimSun'',
                Par (fmt 1234.5) ''SimSun'', Par (fmt 2469) ''SimSun'']] \<and>
      pdf_story (worker_exported fmt pystr pricey_data pricey_items) ! 3 =
        Table [[Val (Str []), Val (Str ''TOTAL''), Val (Str (fmt 2469))],
               [Val (Str []), Val (Str ''Received''), Val (Str (''('' @ fmt 1000 @ '')''))],
               [Val (Str []), Val (Str ''Balance''), Val (Str (fmt 1469))]]"
    for fmt pystr
    using worker_exported_totals[of fmt pystr pricey_data pricey_items]
      pricey_worker_sheet[of fmt pystr] pricey_worker_pdf[of fmt pystr]
    by (simp add: l d b)
  show "\<exists>wl. worker_create_files L decimal fmt pystr pricey_form = checked L wl \<and>
      cells (excel_sheet wl) (9, 3) = Some (Str (fmt 1234.5)) \<and>
      cells (excel_sheet wl) (9, 4) = Some (Str (fmt 2469)) \<and>
      cells (excel_sheet wl) (10, 4) = Some (Str (fmt 2469)) \<and>
      cells (excel_sheet wl) (11, 4) = Some (Str (''('' @ fmt 1000 @ '')'')) \<and>
      cells (excel_sheet wl) (12, 4) = Some (Str (fmt 1469)) \<and>
      pdf_story wl ! 2 =
        Table [[Par ''Items'' ''SimSunBold'', Par ''Units'' ''SimSunBold'',
                Par ''Cost Per Unit'' ''SimSunBold'', Par ''Amount'' ''SimSunBold''],
               [Par ''Widget'' ''SimSun'', Par (pystr 2) ''SimSun'',
                Par (fmt 1234.5) ''SimSun'', Par (fmt 2469) ''SimSun'']] \<and>
      pdf_story wl ! 3 =
        Table [[Val (Str []), Val (Str ''TOTAL''), Val (Str (fmt 2469))],
               [Val (Str []), Val (Str ''Received''), Val (Str (''('' @ fmt 1000 @ '')''))],
               [Val (Str []), Val (Str ''Balance''), Val (Str (fmt 1469))]]"
    using x[of fmt pystr] w[of L fmt pystr] by blast
  have w2: "worker_create_files plain_libs decimal two_decimals float_str pricey_form
              = Inr (worker_exported two_decimals float_str pricey_data pricey_items)"
    by (simp add: w pricey_worker_files)
  show "\<exists>wl. worker_create_files plain_libs decimal two_decimals float_str pricey_form = Inr wl \<and>
      cells (excel_sheet wl) (9, 3) = Some (Str ''1,234.50'') \<and>
      cells (excel_sheet wl) (9, 4) = Some (Str ''2,469.00'') \<and>
      cells (excel_sheet wl) (10, 4) = Some (Str ''2,469.00'') \<and>
      cells (excel_sheet wl) (11, 4) = Some (Str ''(1,000.00)'') \<and>
      cells (excel_sheet wl) (12, 4) = Some (Str ''1,469.00'') \<and>
      pdf_story wl ! 2 =
        Table [[Par ''Items'' ''SimSunBold'', Par ''Units'' ''SimSunBold'',
                Par ''Cost Per Unit'' ''SimSunBold'', Par ''Amount'' ''SimSunBold''],
               [Par ''Widget'' ''SimSun'', Par ''2.0'' ''SimSun'',
                Par ''1,234.50'' ''SimSun'', Par ''2,469.00'' ''SimSun'']] \<and>
      pdf_story wl ! 3 =
        Table [[Val (Str []), Val (Str ''TOTAL''), Val (Str ''2,469.00'')],
               [Val (Str []), Val (Str ''Received''), Val (Str ''(1,000.00)'')],
               [Val (Str []), Val (Str ''Balance''), Val (Str ''1,469.00'')]]"
    using x[of two_decimals float_str] w2
    by (simp add: two_decimals_def float_str_def)
qed

end
